theory Spec2Isabelle
  imports Complex_Main
begin

section \<open>Values, JSON documents and data frames\<close>

text \<open>
  The two notebooks (the bitcoin time-series one and the asset-listing one) are Python
  scripts over \<^verbatim>\<open>requests\<close> and \<^verbatim>\<open>pandas\<close>. A decoded JSON document is a
  \<open>json\<close> value; a Python \<^verbatim>\<open>dict\<close> is an association list with distinct keys
  kept in insertion order. Numbers are modelled by their exact value: the model does not
  distinguish \<^verbatim>\<open>int64\<close> from \<^verbatim>\<open>float64\<close>, and \<^verbatim>\<open>None\<close> and
  \<^verbatim>\<open>NaN\<close> are the one missing value \<open>Null\<close>, as \<^verbatim>\<open>fillna\<close> treats them.
\<close>

datatype json = JNull | JNum rat | JStr string | JArr "json list" | JObj "(string \<times> json) list"

type_synonym date = "int \<times> int \<times> int"

datatype cell = Null | Num rat | Str string | Date date | Obj json

datatype exn = KeyError | TypeError | ValueError | AttributeError | UnboundLocalError
  | NameError | IndexError | OSError | JSONDecodeError | SQLError

type_synonym pydict = "(string \<times> json) list"

definition dict_pop :: "pydict \<Rightarrow> string \<Rightarrow> pydict" where
  "dict_pop d k = filter (\<lambda>kv. fst kv \<noteq> k) d"

definition dict_set :: "pydict \<Rightarrow> string \<Rightarrow> json \<Rightarrow> pydict" where
  "dict_set d k v =
     (if k \<in> set (map fst d) then map (\<lambda>kv. if fst kv = k then (k, v) else kv) d
      else d @ [(k, v)])"

fun dict_update :: "pydict \<Rightarrow> pydict \<Rightarrow> pydict" where
  "dict_update d [] = d"
| "dict_update d ((k, v) # kvs) = dict_update (dict_set d k v) kvs"

text \<open>
  \<^verbatim>\<open>nested_to_record\<close> of pandas, which \<^verbatim>\<open>json_normalize\<close> applies to every
  record: the loop runs over the items of the record \<open>d\<close> and rewrites a copy
  \<open>new_d\<close>. A nested object is popped and its flattened items are merged in under the
  key joined with the separator; below the top level every key is popped and stored
  again under its prefixed name.
\<close>

fun nested_to_record :: "string \<Rightarrow> nat \<Rightarrow> string \<Rightarrow> pydict \<Rightarrow> pydict \<Rightarrow> pydict" where
  "nested_to_record sep level prefix [] new_d = new_d"
| "nested_to_record sep level prefix ((k, v) # rest) new_d =
     (let newkey = (if level = 0 then k else prefix @ sep @ k) in
      nested_to_record sep level prefix rest
        (case v of
           JObj sub \<Rightarrow>
             dict_update (dict_pop new_d k) (nested_to_record sep (Suc level) newkey sub sub)
         | _ \<Rightarrow> (if level \<noteq> 0 then dict_set (dict_pop new_d k) newkey v else new_d)))"

text \<open>
  A \<^verbatim>\<open>DataFrame\<close>: the number of rows of its index and its columns in order, each
  column holding one cell per row.
\<close>

record dataframe =
  nrows :: nat
  cols :: "(string \<times> cell list) list"

definition columns :: "dataframe \<Rightarrow> string list" where
  "columns df = map fst (cols df)"

definition column :: "dataframe \<Rightarrow> string \<Rightarrow> cell list option" where
  "column df c = map_of (cols df) c"

definition set_column :: "dataframe \<Rightarrow> string \<Rightarrow> cell list \<Rightarrow> dataframe" where
  \<comment> \<open>\<^verbatim>\<open>df[c] = values\<close>: replaces the column in place, or appends a new one\<close>
  "set_column df c xs =
     (if c \<in> set (columns df)
      then df\<lparr>cols := map (\<lambda>cx. if fst cx = c then (c, xs) else cx) (cols df)\<rparr>
      else df\<lparr>cols := cols df @ [(c, xs)]\<rparr>)"

definition row :: "dataframe \<Rightarrow> nat \<Rightarrow> (string \<times> cell) list" where
  "row df i = map (\<lambda>cx. (fst cx, snd cx ! i)) (cols df)"

fun cell_of_json :: "json \<Rightarrow> cell" where
  "cell_of_json JNull = Null"
| "cell_of_json (JNum x) = Num x"
| "cell_of_json (JStr s) = Str s"
| "cell_of_json v = Obj v"

definition record_cell :: "pydict \<Rightarrow> string \<Rightarrow> cell" where
  \<comment> \<open>a key the record lacks becomes a missing value\<close>
  "record_cell r c = (case map_of r c of None \<Rightarrow> Null | Some v \<Rightarrow> cell_of_json v)"

definition union_keys :: "pydict list \<Rightarrow> string list" where
  \<comment> \<open>the keys of all records, each once, in first-seen order\<close>
  "union_keys rs = rev (remdups (rev (concat (map (map fst) rs))))"

definition DataFrame :: "pydict list \<Rightarrow> dataframe" where
  "DataFrame rs =
     \<lparr>nrows = length rs,
      cols = map (\<lambda>c. (c, map (\<lambda>r. record_cell r c) rs)) (union_keys rs)\<rparr>"

text \<open>
  \<^verbatim>\<open>pd.json_normalize(raw, record_path = "data", sep = '.')\<close>. The document (or each
  document of a list) must be an object holding the record list under the path: a
  missing key is a \<^verbatim>\<open>KeyError\<close>, a null list is empty, any other value a
  \<^verbatim>\<open>TypeError\<close>. Every record is flattened and the frame is built from the
  records in order. A record that is not an object lies outside the data model
  (a RawRecord is a mapping); the model answers \<^verbatim>\<open>TypeError\<close> there.
\<close>

definition pull_records :: "json \<Rightarrow> string \<Rightarrow> exn + json list" where
  "pull_records js spec =
     (case js of
        JObj d \<Rightarrow>
          (case map_of d spec of
             None \<Rightarrow> Inl KeyError
           | Some (JArr rs) \<Rightarrow> Inr rs
           | Some JNull \<Rightarrow> Inr []
           | Some _ \<Rightarrow> Inl TypeError)
      | _ \<Rightarrow> Inl TypeError)"

definition flatten_record :: "string \<Rightarrow> pydict \<Rightarrow> pydict" where
  "flatten_record sep r = nested_to_record sep 0 [] r r"

fun flatten_records :: "string \<Rightarrow> json list \<Rightarrow> exn + pydict list" where
  "flatten_records sep [] = Inr []"
| "flatten_records sep (JObj r # rs) =
     (case flatten_records sep rs of
        Inl e \<Rightarrow> Inl e
      | Inr fs \<Rightarrow> Inr (flatten_record sep r # fs))"
| "flatten_records sep (v # rs) = Inl TypeError"

fun extract_all :: "string \<Rightarrow> string \<Rightarrow> json list \<Rightarrow> exn + pydict list" where
  "extract_all path sep [] = Inr []"
| "extract_all path sep (obj # objs) =
     (case pull_records obj path of
        Inl e \<Rightarrow> Inl e
      | Inr recs \<Rightarrow>
          (case flatten_records sep recs of
             Inl e \<Rightarrow> Inl e
           | Inr fs \<Rightarrow>
               (case extract_all path sep objs of
                  Inl e \<Rightarrow> Inl e
                | Inr gs \<Rightarrow> Inr (fs @ gs))))"

definition json_normalize :: "json \<Rightarrow> string \<Rightarrow> string \<Rightarrow> exn + dataframe" where
  "json_normalize raw record_path sep =
     (case (case raw of JObj d \<Rightarrow> Inr [raw] | JArr objs \<Rightarrow> Inr objs | _ \<Rightarrow> Inl TypeError) of
        Inl e \<Rightarrow> Inl e
      | Inr objs \<Rightarrow>
          (case extract_all record_path sep objs of
             Inl e \<Rightarrow> Inl e
           | Inr recs \<Rightarrow> Inr (DataFrame recs)))"

section \<open>The column operations of pandas used by the notebooks\<close>

text \<open>
  What Python and pandas do with the text of a cell is not code of the notebooks: the
  parsers of \<^verbatim>\<open>float\<close>, \<^verbatim>\<open>int\<close> and \<^verbatim>\<open>pd.to_datetime\<close>, the
  printer \<^verbatim>\<open>str\<close>, the reading of a number as a timestamp and the text of a CSV
  file are parameters of the model. A parser answers \<open>None\<close> where Python raises
  \<^verbatim>\<open>ValueError\<close>.
\<close>

record pylib =
  float_of_str :: "string \<Rightarrow> rat option"
  int_of_str :: "string \<Rightarrow> int option"
  str_of_cell :: "cell \<Rightarrow> string"
  date_of_str :: "string \<Rightarrow> date option"
  date_of_num :: "rat \<Rightarrow> date"
  csv_of :: "dataframe \<Rightarrow> string"

datatype dtype = TInt | TFloat | TStr

fun map_exn :: "('a \<Rightarrow> exn + 'b) \<Rightarrow> 'a list \<Rightarrow> exn + 'b list" where
  "map_exn f [] = Inr []"
| "map_exn f (x # xs) =
     (case f x of
        Inl e \<Rightarrow> Inl e
      | Inr y \<Rightarrow> (case map_exn f xs of Inl e \<Rightarrow> Inl e | Inr ys \<Rightarrow> Inr (y # ys)))"

definition trunc :: "rat \<Rightarrow> rat" where
  "trunc x = (if 0 \<le> x then of_int \<lfloor>x\<rfloor> else of_int \<lceil>x\<rceil>)"

fun astype_cell :: "pylib \<Rightarrow> dtype \<Rightarrow> cell \<Rightarrow> exn + cell" where
  "astype_cell L TFloat Null = Inr Null"
| "astype_cell L TFloat (Num x) = Inr (Num x)"
| "astype_cell L TFloat (Str s) =
     (case float_of_str L s of None \<Rightarrow> Inl ValueError | Some x \<Rightarrow> Inr (Num x))"
| "astype_cell L TFloat (Date d) = Inl TypeError"
| "astype_cell L TFloat (Obj v) = Inl TypeError"
| "astype_cell L TInt Null = Inl TypeError"
| "astype_cell L TInt (Num x) = Inr (Num (trunc x))"
| "astype_cell L TInt (Str s) =
     (case int_of_str L s of None \<Rightarrow> Inl ValueError | Some i \<Rightarrow> Inr (Num (of_int i)))"
| "astype_cell L TInt (Date d) = Inl TypeError"
| "astype_cell L TInt (Obj v) = Inl TypeError"
| "astype_cell L TStr c = Inr (Str (str_of_cell L c))"

definition astype :: "pylib \<Rightarrow> cell list \<Rightarrow> dtype \<Rightarrow> exn + cell list" where
  "astype L xs t = map_exn (astype_cell L t) xs"

fun to_datetime_date_cell :: "pylib \<Rightarrow> cell \<Rightarrow> exn + cell" where
  "to_datetime_date_cell L Null = Inr Null"
| "to_datetime_date_cell L (Num x) = Inr (Date (date_of_num L x))"
| "to_datetime_date_cell L (Str s) =
     (case date_of_str L s of None \<Rightarrow> Inl ValueError | Some d \<Rightarrow> Inr (Date d))"
| "to_datetime_date_cell L (Date d) = Inr (Date d)"
| "to_datetime_date_cell L (Obj v) = Inl TypeError"

definition to_datetime_date :: "pylib \<Rightarrow> cell list \<Rightarrow> exn + cell list" where
  \<comment> \<open>\<^verbatim>\<open>pd.to_datetime(column).dt.date\<close>\<close>
  "to_datetime_date L xs = map_exn (to_datetime_date_cell L) xs"

definition fillna :: "cell list \<Rightarrow> cell \<Rightarrow> cell list" where
  "fillna xs v = map (\<lambda>c. if c = Null then v else c) xs"

definition rint :: "rat \<Rightarrow> int" where
  \<comment> \<open>round to the nearest integer, a tie to the even one\<close>
  "rint y =
     (let f = \<lfloor>y\<rfloor>; d = y - of_int f in
      if d < 1 / 2 then f else if 1 / 2 < d then f + 1 else if even f then f else f + 1)"

definition round2 :: "rat \<Rightarrow> rat" where
  "round2 x = of_int (rint (x * 100)) / 100"

fun is_numeric :: "cell \<Rightarrow> bool" where
  "is_numeric Null = True"
| "is_numeric (Num x) = True"
| "is_numeric c = False"

fun round_cell :: "cell \<Rightarrow> cell" where
  "round_cell (Num x) = Num (round2 x)"
| "round_cell c = c"

definition round_series :: "cell list \<Rightarrow> cell list" where
  \<comment> \<open>\<^verbatim>\<open>Series.round(2)\<close>: a column that is not numeric comes back as it is\<close>
  "round_series xs = (if list_all is_numeric xs then map round_cell xs else xs)"

section \<open>The transformation functions\<close>

text \<open>What a cell of a notebook prints.\<close>

datatype printed =
    NonSuccessStatus int
  | DateError exn
  | DropError exn
  | RoundError exn
  | TransformError
  | CsvSaved string
  | CsvError exn

text \<open>
  \<^verbatim>\<open>convert_cols_cat_to_num\<close>: the loop over the items of the dictionary
  \<^verbatim>\<open>cols_datatypes\<close>, an association list in insertion order. \<^verbatim>\<open>astype\<close> is
  called only under the guard \<^verbatim>\<open>if col in df.columns\<close>; its exception is not
  caught.
\<close>

fun convert_cols_cat_to_num :: "pylib \<Rightarrow> dataframe \<Rightarrow> (string \<times> dtype) list \<Rightarrow> exn + dataframe" where
  "convert_cols_cat_to_num L df [] = Inr df"
| "convert_cols_cat_to_num L df ((col, datatype) # rest) =
     (case column df col of
        None \<Rightarrow> convert_cols_cat_to_num L df rest
      | Some xs \<Rightarrow>
          (case astype L xs datatype of
             Inl e \<Rightarrow> Inl e
           | Inr ys \<Rightarrow> convert_cols_cat_to_num L (set_column df col ys) rest))"

text \<open>
  The three inner functions of the time-series notebook wrap their body in
  \<^verbatim>\<open>try ... except Exception\<close>, print a message and return \<^verbatim>\<open>None\<close>. The next
  one is then called on \<^verbatim>\<open>None\<close>, fails inside its own \<^verbatim>\<open>try\<close> and returns
  \<^verbatim>\<open>None\<close> again.
\<close>

definition convert_iso_date_to_datetime ::
  "pylib \<Rightarrow> dataframe \<Rightarrow> string \<Rightarrow> dataframe option \<times> printed list" where
  "convert_iso_date_to_datetime L df col_name =
     (case column df col_name of
        None \<Rightarrow> (None, [DateError KeyError])
      | Some xs \<Rightarrow>
          (case to_datetime_date L xs of
             Inl e \<Rightarrow> (None, [DateError e])
           | Inr ys \<Rightarrow> (Some (set_column df col_name ys), [])))"

definition drop_columns :: "dataframe option \<Rightarrow> string list \<Rightarrow> dataframe option \<times> printed list" where
  "drop_columns dfo cols_to_drop =
     (case dfo of
        None \<Rightarrow> (None, [DropError AttributeError])
      | Some df \<Rightarrow>
          (if set cols_to_drop \<subseteq> set (columns df)
           then (Some (df\<lparr>cols := filter (\<lambda>cx. fst cx \<notin> set cols_to_drop) (cols df)\<rparr>), [])
           else (None, [DropError KeyError])))"

fun round_each :: "dataframe \<Rightarrow> string list \<Rightarrow> dataframe" where
  "round_each df [] = df"
| "round_each df (c # cs) =
     round_each (case column df c of None \<Rightarrow> df | Some xs \<Rightarrow> set_column df c (round_series xs)) cs"

definition round_columns :: "dataframe \<Rightarrow> string list \<Rightarrow> exn + dataframe" where
  \<comment> \<open>\<^verbatim>\<open>df[cols_to_round] = df[cols_to_round].apply(lambda x: x.round(2))\<close>: selecting
      a missing column is a \<^verbatim>\<open>KeyError\<close>; with a name listed twice the selection has
      two columns of that name and the assignment is a \<^verbatim>\<open>ValueError\<close>\<close>
  "round_columns df cols_to_round =
     (if \<not> set cols_to_round \<subseteq> set (columns df) then Inl KeyError
      else if \<not> distinct cols_to_round then Inl ValueError
      else Inr (round_each df cols_to_round))"

definition round_to_two_decimal_places ::
  "dataframe option \<Rightarrow> string list \<Rightarrow> dataframe option \<times> printed list" where
  "round_to_two_decimal_places dfo cols_to_round =
     (case dfo of
        None \<Rightarrow> (None, [RoundError TypeError])
      | Some df \<Rightarrow>
          (case round_columns df cols_to_round of
             Inl e \<Rightarrow> (None, [RoundError e])
           | Inr d \<Rightarrow> (Some d, [])))"

text \<open>
  \<^verbatim>\<open>transform\<close> of the time-series notebook. It returns what the function returns
  (an exception that leaves it, or its return value, which may be \<^verbatim>\<open>None\<close>) and
  what it printed.
\<close>

definition transform_time_series ::
  "pylib \<Rightarrow> json \<Rightarrow> (string \<times> dtype) list \<Rightarrow> string list
     \<Rightarrow> (exn + dataframe option) \<times> printed list" where
  "transform_time_series L raw_data_json cols_datatypes cols_to_round =
     (case json_normalize raw_data_json ''data'' ''.'' of
        Inl e \<Rightarrow> (Inl e, [])
      | Inr raw_normalized_data_df \<Rightarrow>
          (case convert_cols_cat_to_num L raw_normalized_data_df cols_datatypes of
             Inl e \<Rightarrow> (Inl e, [])
           | Inr converted \<Rightarrow>
               (let (d1, o1) = convert_iso_date_to_datetime L converted ''date'';
                    (d2, o2) = drop_columns d1 [''time''];
                    (d3, o3) = round_to_two_decimal_places d2 cols_to_round
                in (Inr d3, o1 @ o2 @ o3))))"

text \<open>
  \<^verbatim>\<open>transform\<close> of the asset-listing notebook: no inner \<^verbatim>\<open>try\<close>; the two
  \<^verbatim>\<open>fillna\<close> lines index the frame by a fixed column name.
\<close>

definition fill_column :: "dataframe \<Rightarrow> string \<Rightarrow> cell \<Rightarrow> exn + dataframe" where
  \<comment> \<open>\<^verbatim>\<open>df[c] = df[c].fillna(v)\<close>\<close>
  "fill_column df c v =
     (case column df c of
        None \<Rightarrow> Inl KeyError
      | Some xs \<Rightarrow> Inr (set_column df c (fillna xs v)))"

definition transform_assets ::
  "pylib \<Rightarrow> json \<Rightarrow> (string \<times> dtype) list \<Rightarrow> string list \<Rightarrow> exn + dataframe" where
  "transform_assets L raw_data_json cols_datatypes cols_to_round =
     (case json_normalize raw_data_json ''data'' ''.'' of
        Inl e \<Rightarrow> Inl e
      | Inr raw_normalized_data_df \<Rightarrow>
          (case convert_cols_cat_to_num L raw_normalized_data_df cols_datatypes of
             Inl e \<Rightarrow> Inl e
           | Inr converted \<Rightarrow>
               (case fill_column converted ''maxSupply'' (Num 0) of
                  Inl e \<Rightarrow> Inl e
                | Inr c1 \<Rightarrow>
                    (case fill_column c1 ''explorer'' (Str ''not available'') of
                       Inl e \<Rightarrow> Inl e
                     | Inr c2 \<Rightarrow> round_columns c2 cols_to_round))))"

text \<open>The declared column types and rounding lists of the two notebooks.\<close>

definition cols_datatypes_time_series :: "(string \<times> dtype) list" where
  "cols_datatypes_time_series = [(''priceUsd'', TFloat)]"

definition cols_to_round_time_series :: "string list" where
  "cols_to_round_time_series = [''priceUsd'']"

definition cols_datatypes_assets :: "(string \<times> dtype) list" where
  "cols_datatypes_assets =
     [(''rank'', TInt), (''supply'', TFloat), (''maxSupply'', TFloat),
      (''marketCapUsd'', TFloat), (''volumeUsd24Hr'', TFloat), (''priceUsd'', TFloat),
      (''changePercent24Hr'', TFloat), (''vwap24Hr'', TFloat)]"

definition cols_to_round_assets :: "string list" where
  "cols_to_round_assets =
     [''supply'', ''maxSupply'', ''marketCapUsd'', ''priceUsd'', ''changePercent24Hr'',
      ''vwap24Hr'']"

section \<open>Extraction and the CSV sink\<close>

text \<open>
  The effects of a run, in the order they happen. \<^verbatim>\<open>requests.get\<close> is a parameter:
  it answers with a response (status code and the body decoded by \<^verbatim>\<open>r.json()\<close>,
  which may fail) or raises.
\<close>

datatype io =
    HttpGet string
  | CsvWrite string
  | LoadDotenv
  | CreateEngine string
  | DisposeEngine
  | ToSql string
  | ReadSql string

record response =
  status_code :: int
  json_body :: "exn + json"

text \<open>
  \<^verbatim>\<open>extract\<close> (here \<open>extract_json\<close>): \<^verbatim>\<open>raw_data_json\<close> is assigned only in the branch of status 200;
  the other branch prints, and the \<^verbatim>\<open>return raw_data_json\<close> that follows reads a
  local variable that was never bound.
\<close>

definition extract_json ::
  "(string \<Rightarrow> exn + response) \<Rightarrow> string \<Rightarrow> (exn + json) \<times> io list \<times> printed list" where
  "extract_json requests_get api_get_request_url =
     (case requests_get api_get_request_url of
        Inl e \<Rightarrow> (Inl e, [HttpGet api_get_request_url], [])
      | Inr r \<Rightarrow>
          (if status_code r = 200
           then (json_body r, [HttpGet api_get_request_url], [])
           else (Inl UnboundLocalError, [HttpGet api_get_request_url],
                 [NonSuccessStatus (status_code r)])))"

text \<open>
  The file system as \<^verbatim>\<open>to_csv\<close> sees it: the text of each file, and the paths that
  cannot be opened for writing (permission denied, missing directory). Opening in mode
  \<^verbatim>\<open>'w'\<close> replaces what the file held.
\<close>

record filesys =
  files :: "string \<Rightarrow> string option"
  unwritable :: "string \<Rightarrow> bool"

definition to_csv :: "pylib \<Rightarrow> filesys \<Rightarrow> dataframe \<Rightarrow> string \<Rightarrow> exn + filesys" where
  "to_csv L fs df file_name =
     (if unwritable fs file_name then Inl OSError
      else Inr (fs\<lparr>files := (files fs)(file_name \<mapsto> csv_of L df)\<rparr>))"

text \<open>
  \<^verbatim>\<open>df_to_csv\<close>: the whole body is inside \<^verbatim>\<open>try ... except Exception\<close>, so the
  function always returns \<^verbatim>\<open>None\<close> normally. Called on \<^verbatim>\<open>None\<close> the attribute
  lookup \<^verbatim>\<open>df.to_csv\<close> fails inside the \<^verbatim>\<open>try\<close>.
\<close>

definition df_to_csv ::
  "pylib \<Rightarrow> filesys \<Rightarrow> dataframe option \<Rightarrow> string \<Rightarrow> (exn + unit) \<times> filesys \<times> printed list" where
  "df_to_csv L fs dfo file_name =
     (case dfo of
        None \<Rightarrow> (Inr (), fs, [CsvError AttributeError])
      | Some df \<Rightarrow>
          (case to_csv L fs df file_name of
             Inl e \<Rightarrow> (Inr (), fs, [CsvError e])
           | Inr fs' \<Rightarrow> (Inr (), fs', [CsvSaved file_name])))"

section \<open>A reference instance of the library parameters\<close>

text \<open>
  Plain decimal numerals and ISO-8601 dates, the formats the API sends. Python accepts
  more (exponents, surrounding blanks); the general theorems below hold for every
  instance and use this one only at concrete inputs.
\<close>

definition digit_val :: "char \<Rightarrow> int option" where
  \<comment> \<open>the decimal digits are the codes 48 to 57\<close>
  "digit_val c = (let n = of_char c in if (48::int) \<le> n \<and> n \<le> 57 then Some (n - 48) else None)"

fun digits_acc :: "int \<Rightarrow> string \<Rightarrow> int option" where
  "digits_acc a [] = Some a"
| "digits_acc a (c # cs) =
     (case digit_val c of None \<Rightarrow> None | Some d \<Rightarrow> digits_acc (10 * a + d) cs)"

definition int_of_digits :: "string \<Rightarrow> int option" where
  "int_of_digits s = (if s = [] then None else digits_acc 0 s)"

definition unsigned_decimal :: "string \<Rightarrow> rat option" where
  "unsigned_decimal s =
     (let ip = takeWhile (\<lambda>c. c \<noteq> CHR ''.'') s; rest = dropWhile (\<lambda>c. c \<noteq> CHR ''.'') s in
      case int_of_digits ip of
        None \<Rightarrow> None
      | Some i \<Rightarrow>
          (if rest = [] then Some (of_int i)
           else if tl rest = [] then Some (of_int i)
           else (case int_of_digits (tl rest) of
                   None \<Rightarrow> None
                 | Some f \<Rightarrow> Some (of_int i + of_int f / 10 ^ length (tl rest)))))"

definition py_float :: "string \<Rightarrow> rat option" where
  "py_float s =
     (case s of
        [] \<Rightarrow> None
      | c # cs \<Rightarrow> (if c = CHR ''-'' then map_option uminus (unsigned_decimal cs)
                   else unsigned_decimal s))"

definition py_int :: "string \<Rightarrow> int option" where
  "py_int s =
     (case s of
        [] \<Rightarrow> None
      | c # cs \<Rightarrow> (if c = CHR ''-'' then map_option uminus (int_of_digits cs)
                   else int_of_digits s))"

definition days_in_month :: "int \<Rightarrow> int \<Rightarrow> int" where
  "days_in_month y m =
     (if m = 2 then (if y mod 4 = 0 \<and> (y mod 100 \<noteq> 0 \<or> y mod 400 = 0) then 29 else 28)
      else if m = 4 \<or> m = 6 \<or> m = 9 \<or> m = 11 then 30 else 31)"

definition py_date :: "string \<Rightarrow> date option" where
  "py_date s =
     (if length s < 10 \<or> s ! 4 \<noteq> CHR ''-'' \<or> s ! 7 \<noteq> CHR ''-''
         \<or> (10 < length s \<and> s ! 10 \<noteq> CHR ''T'') then None
      else (case (int_of_digits (take 4 s), int_of_digits (take 2 (drop 5 s)),
                  int_of_digits (take 2 (drop 8 s))) of
              (Some y, Some m, Some d) \<Rightarrow>
                (if 1 \<le> m \<and> m \<le> 12 \<and> 1 \<le> d \<and> d \<le> days_in_month y m then Some (y, m, d)
                 else None)
            | _ \<Rightarrow> None))"

primrec show_digits :: "nat \<Rightarrow> int \<Rightarrow> string" where
  "show_digits 0 n = []"
| "show_digits (Suc w) n = show_digits w (n div 10) @ [char_of (48 + n mod 10)]"

definition py_str :: "cell \<Rightarrow> string" where
  \<comment> \<open>\<^verbatim>\<open>str\<close> of a text, of \<^verbatim>\<open>None\<close> and of a date; the text of a number or of
      another object is not modelled and shown by a placeholder\<close>
  "py_str c =
     (case c of
        Str s \<Rightarrow> s
      | Null \<Rightarrow> ''None''
      | Date d \<Rightarrow>
          (case d of (y, m, dd) \<Rightarrow>
             show_digits 4 y @ ''-'' @ show_digits 2 m @ ''-'' @ show_digits 2 dd)
      | _ \<Rightarrow> ''object'')"

fun comma_joined :: "string list \<Rightarrow> string" where
  "comma_joined [] = []"
| "comma_joined [x] = x"
| "comma_joined (x # y # ys) = x @ '','' @ comma_joined (y # ys)"

definition py_csv :: "dataframe \<Rightarrow> string" where
  \<comment> \<open>the header line, then one line per row, each line ended by a line feed\<close>
  "py_csv df =
     comma_joined (columns df) @ [CHR 0x0A]
     @ concat (map (\<lambda>i. comma_joined (map (\<lambda>cx. py_str (snd cx ! i)) (cols df)) @ [CHR 0x0A])
                 [0..<nrows df])"

text \<open>
  The instance reads a number as the timestamp of the epoch day, which is what
  \<^verbatim>\<open>pd.to_datetime\<close> answers for a count of nanoseconds below one day. Its CSV text
  is the one \<^verbatim>\<open>to_csv(index=False)\<close> writes for cells that need no quoting, with the
  text \<open>py_str\<close> gives a cell. No concrete input below has a number as a date or in a
  CSV file.
\<close>

definition py :: pylib where
  "py = \<lparr>float_of_str = py_float, int_of_str = py_int, str_of_cell = py_str,
         date_of_str = py_date, date_of_num = (\<lambda>x. (1970, 1, 1)),
         csv_of = py_csv\<rparr>"

section \<open>A run of the asset-listing notebook\<close>

text \<open>
  The cells of the notebook run in document order in a fresh kernel, and the run stops at
  the first exception that no \<^verbatim>\<open>try\<close> catches. When \<^verbatim>\<open>transform\<close> raises, the
  cell prints its message and \<^verbatim>\<open>cleaned_data_df\<close> stays unbound, so the next cell,
  which reads it, stops the run with \<^verbatim>\<open>NameError\<close>. The world of a run: the answer of the API, the
  environment after \<^verbatim>\<open>load_dotenv()\<close>, the file system, and the error (if any) the
  database answers \<^verbatim>\<open>to_sql\<close> with.
\<close>

record world =
  requests_get :: "string \<Rightarrow> exn + response"
  environ :: "string \<Rightarrow> string option"
  disk :: filesys
  db_error :: "exn option"

fun py_len :: "json \<Rightarrow> exn + nat" where
  "py_len (JArr xs) = Inr (length xs)"
| "py_len (JObj d) = Inr (length d)"
| "py_len (JStr s) = Inr (length s)"
| "py_len v = Inl TypeError"

fun py_first :: "json \<Rightarrow> exn + json" where
  \<comment> \<open>\<^verbatim>\<open>v[0]\<close>\<close>
  "py_first (JArr []) = Inl IndexError"
| "py_first (JArr (x # xs)) = Inr x"
| "py_first (JStr []) = Inl IndexError"
| "py_first (JStr (c # cs)) = Inr (JStr [c])"
| "py_first (JObj d) = Inl KeyError"
| "py_first v = Inl TypeError"

definition explore_cells :: "json \<Rightarrow> exn option" where
  \<comment> \<open>the two display cells: \<^verbatim>\<open>raw_data_json.keys()\<close>, then the lengths of
      \<^verbatim>\<open>values_ls[0]\<close> and \<^verbatim>\<open>values_ls[0][0]\<close>\<close>
  "explore_cells raw =
     (case raw of
        JObj d \<Rightarrow>
          (case d of
             [] \<Rightarrow> Some IndexError
           | kv # _ \<Rightarrow>
               (case py_len (snd kv) of
                  Inl e \<Rightarrow> Some e
                | Inr _ \<Rightarrow>
                    (case py_first (snd kv) of
                       Inl e \<Rightarrow> Some e
                     | Inr x \<Rightarrow> (case py_len x of Inl e \<Rightarrow> Some e | Inr _ \<Rightarrow> None))))
      | _ \<Rightarrow> Some AttributeError)"

definition truthy :: "string option \<Rightarrow> bool" where
  \<comment> \<open>the truth value \<^verbatim>\<open>all\<close> gives the result of \<^verbatim>\<open>os.getenv\<close>\<close>
  "truthy v = (case v of None \<Rightarrow> False | Some s \<Rightarrow> s \<noteq> [])"

definition config_ok :: "(string \<Rightarrow> string option) \<Rightarrow> bool" where
  "config_ok env =
     (truthy (env ''POSTGRES_USER'') \<and> truthy (env ''POSTGRES_PASSWORD'')
      \<and> truthy (env ''POSTGRES_HOST'') \<and> truthy (env ''POSTGRES_DB''))"

definition fmt :: "string option \<Rightarrow> string" where
  \<comment> \<open>how an f-string shows the result of \<^verbatim>\<open>os.getenv\<close>\<close>
  "fmt v = (case v of None \<Rightarrow> ''None'' | Some s \<Rightarrow> s)"

definition connection_uri :: "(string \<Rightarrow> string option) \<Rightarrow> string" where
  "connection_uri env =
     ''postgresql://'' @ fmt (env ''POSTGRES_USER'') @ '':''
       @ fmt (env ''POSTGRES_PASSWORD'') @ ''@''
       @ fmt (env ''POSTGRES_HOST'') @ ''/'' @ fmt (env ''POSTGRES_DB'')"

definition assets_url :: string where
  "assets_url = ''https://api.coincap.io/v2/assets''"

definition assets_csv :: string where
  "assets_csv = ''/workspace/sources/crypto_mkt.csv''"

text \<open>
  \<^verbatim>\<open>load\<close>: \<^verbatim>\<open>cleaned_data_df.to_sql(name, con, if_exists="replace")\<close>, not inside
  any \<^verbatim>\<open>try\<close>. On \<^verbatim>\<open>None\<close> the attribute lookup fails before the database is
  touched.
\<close>

definition load :: "string \<Rightarrow> exn option \<Rightarrow> dataframe option \<Rightarrow> exn option \<times> io list" where
  "load table_name db_err dfo =
     (case dfo of
        None \<Rightarrow> (Some AttributeError, [])
      | Some df \<Rightarrow> (db_err, [ToSql table_name]))"

text \<open>
  The load cells: the configuration check, the engine, \<^verbatim>\<open>load\<close> and the read-back.
\<close>

definition load_cells :: "world \<Rightarrow> dataframe option \<Rightarrow> exn option \<times> io list" where
  "load_cells w dfo =
     (if \<not> config_ok (environ w) then (Some ValueError, [LoadDotenv])
      else
        (case load ''crypto_mkt'' (db_error w) dfo of
           (Some e, tr) \<Rightarrow>
             (Some e, [LoadDotenv, CreateEngine (connection_uri (environ w)), DisposeEngine] @ tr)
         | (None, tr) \<Rightarrow>
             (None, [LoadDotenv, CreateEngine (connection_uri (environ w)), DisposeEngine] @ tr
                    @ [ReadSql ''SELECT * FROM crypto_mkt''])))"

definition run_assets_notebook ::
  "pylib \<Rightarrow> world \<Rightarrow> exn option \<times> io list \<times> printed list" where
  "run_assets_notebook L w =
     (case extract_json (requests_get w) assets_url of
        (Inl e, tr, out) \<Rightarrow> (Some e, tr, out)
      | (Inr raw_data_json, tr, out) \<Rightarrow>
          (case explore_cells raw_data_json of
             Some e \<Rightarrow> (Some e, tr, out)
           | None \<Rightarrow>
               (case transform_assets L raw_data_json cols_datatypes_assets cols_to_round_assets of
                  Inl e \<Rightarrow> (Some NameError, tr, out @ [TransformError])
                | Inr cleaned_data_df \<Rightarrow>
                    (case df_to_csv L (disk w) (Some cleaned_data_df) assets_csv of
                       (_, fs, out_csv) \<Rightarrow>
                         (case load_cells w (Some cleaned_data_df) of
                            (r, tr_db) \<Rightarrow>
                              (r, tr @ [CsvWrite assets_csv] @ tr_db, out @ out_csv))))))"

definition db_activity :: "io \<Rightarrow> bool" where
  "db_activity ev =
     (case ev of CreateEngine _ \<Rightarrow> True | ToSql _ \<Rightarrow> True | ReadSql _ \<Rightarrow> True
      | DisposeEngine \<Rightarrow> True | _ \<Rightarrow> False)"

section \<open>A run of the time-series notebook\<close>

text \<open>
  The same order of cells, with the URL the notebook builds from its two fixed dates, the
  file \<^verbatim>\<open>bitcoin_time_series.csv\<close> and the table \<^verbatim>\<open>bitcoin_price\<close>. After the
  cell that calls \<^verbatim>\<open>transform\<close> comes \<^verbatim>\<open>cleaned_data_df.info()\<close>: it stops the
  run with \<^verbatim>\<open>NameError\<close> when \<^verbatim>\<open>transform\<close> raised and the variable is unbound,
  and with \<^verbatim>\<open>AttributeError\<close> when \<^verbatim>\<open>transform\<close> returned \<^verbatim>\<open>None\<close>.
\<close>

definition time_series_csv :: string where
  "time_series_csv = ''/workspace/sources/bitcoin_time_series.csv''"

definition load_cells_time_series :: "world \<Rightarrow> dataframe option \<Rightarrow> exn option \<times> io list" where
  "load_cells_time_series w dfo =
     (if \<not> config_ok (environ w) then (Some ValueError, [LoadDotenv])
      else
        (case load ''bitcoin_price'' (db_error w) dfo of
           (Some e, tr) \<Rightarrow>
             (Some e, [LoadDotenv, CreateEngine (connection_uri (environ w)), DisposeEngine] @ tr)
         | (None, tr) \<Rightarrow>
             (None, [LoadDotenv, CreateEngine (connection_uri (environ w)), DisposeEngine] @ tr
                    @ [ReadSql ''SELECT * FROM bitcoin_price''])))"

definition run_time_series_notebook ::
  "pylib \<Rightarrow> world \<Rightarrow> string \<Rightarrow> exn option \<times> io list \<times> printed list" where
  "run_time_series_notebook L w bitcoin_url =
     (case extract_json (requests_get w) bitcoin_url of
        (Inl e, tr, out) \<Rightarrow> (Some e, tr, out)
      | (Inr raw_data_json, tr, out) \<Rightarrow>
          (case explore_cells raw_data_json of
             Some e \<Rightarrow> (Some e, tr, out)
           | None \<Rightarrow>
               (case transform_time_series L raw_data_json cols_datatypes_time_series
                       cols_to_round_time_series of
                  (Inl e, out_t) \<Rightarrow> (Some NameError, tr, out @ out_t @ [TransformError])
                | (Inr None, out_t) \<Rightarrow> (Some AttributeError, tr, out @ out_t)
                | (Inr (Some cleaned_data_df), out_t) \<Rightarrow>
                    (case df_to_csv L (disk w) (Some cleaned_data_df) time_series_csv of
                       (_, fs, out_csv) \<Rightarrow>
                         (case load_cells_time_series w (Some cleaned_data_df) of
                            (r, tr_db) \<Rightarrow>
                              (r, tr @ [CsvWrite time_series_csv] @ tr_db,
                               out @ out_t @ out_csv))))))"

definition sink_activity :: "io \<Rightarrow> bool" where
  \<comment> \<open>a call of the CSV sink or of the table-store sink\<close>
  "sink_activity ev = (case ev of CsvWrite _ \<Rightarrow> True | ToSql _ \<Rightarrow> True | _ \<Rightarrow> False)"

section \<open>Concrete inputs\<close>

definition time_series_response :: json where
  "time_series_response =
     JObj [(''data'',
            JArr [JObj [(''priceUsd'', JStr ''16708.5235619029337193''),
                        (''time'', JNum 1672617600000),
                        (''date'', JStr ''2023-01-02T00:00:00.000Z'')]]),
           (''timestamp'', JNum 1717156800000)]"

definition two_column_frame :: dataframe where
  "two_column_frame = \<lparr>nrows = 1, cols = [(''rank'', [Str ''1'']), (''name'', [Str ''Bitcoin''])]\<rparr>"

definition asset_record :: pydict where
  "asset_record =
     [(''id'', JStr ''bitcoin''), (''rank'', JStr ''1''), (''symbol'', JStr ''BTC''),
      (''name'', JStr ''Bitcoin''), (''supply'', JStr ''19710390.0''), (''maxSupply'', JNull),
      (''marketCapUsd'', JStr ''1367663000000.125''), (''volumeUsd24Hr'', JStr ''3961673000.5''),
      (''priceUsd'', JStr ''69387.9149''), (''changePercent24Hr'', JStr ''-0.3312''),
      (''vwap24Hr'', JStr ''69670.4951''), (''explorer'', JNull)]"

definition assets_response :: json where
  "assets_response = JObj [(''data'', JArr [JObj asset_record]), (''timestamp'', JNum 1717156800000)]"

definition locked_disk :: filesys where
  "locked_disk = \<lparr>files = (\<lambda>p. None), unwritable = (\<lambda>p. True)\<rparr>"

definition used_disk :: filesys where
  "used_disk = \<lparr>files = (\<lambda>p. if p = assets_csv then Some ''old'' else None),
                 unwritable = (\<lambda>p. False)\<rparr>"

definition world_without_user :: world where
  "world_without_user =
     \<lparr>requests_get = (\<lambda>url. Inr \<lparr>status_code = 200, json_body = Inr assets_response\<rparr>),
      environ = (\<lambda>k. if k = ''POSTGRES_USER'' then None else Some ''x''),
      disk = used_disk,
      db_error = None\<rparr>"

definition bad_date_response :: json where
  "bad_date_response =
     JObj [(''data'',
            JArr [JObj [(''priceUsd'', JStr ''16708.5235619029337193''),
                        (''time'', JNum 1672617600000),
                        (''date'', JStr ''yesterday'')]]),
           (''timestamp'', JNum 1717156800000)]"

definition bad_price_response :: json where
  "bad_price_response =
     JObj [(''data'',
            JArr [JObj [(''priceUsd'', JStr ''abc''),
                        (''time'', JNum 1672617600000),
                        (''date'', JStr ''2023-01-02T00:00:00.000Z'')]]),
           (''timestamp'', JNum 1717156800000)]"

definition null_assets_response :: json where
  "null_assets_response =
     JObj [(''data'', JArr [JObj [(''maxSupply'', JNull), (''explorer'', JNull)]]),
           (''timestamp'', JNum 1717156800000)]"

definition bitcoin_url :: string where
  "bitcoin_url =
     ''https://api.coincap.io/v2/assets/bitcoin/history?interval=d1&start=1672574400000&end=1717156800000''"

definition world_bad_date :: world where
  "world_bad_date =
     \<lparr>requests_get = (\<lambda>url. Inr \<lparr>status_code = 200, json_body = Inr bad_date_response\<rparr>),
      environ = (\<lambda>k. Some ''x''),
      disk = used_disk,
      db_error = None\<rparr>"

definition world_bad_price :: world where
  "world_bad_price =
     \<lparr>requests_get = (\<lambda>url. Inr \<lparr>status_code = 200, json_body = Inr bad_price_response\<rparr>),
      environ = (\<lambda>k. Some ''x''),
      disk = used_disk,
      db_error = None\<rparr>"

section \<open>Cells a cast leaves alone\<close>

definition settles :: "pylib \<Rightarrow> dtype \<Rightarrow> cell \<Rightarrow> bool" where
  "settles L t c = (astype_cell L t c = Inr c)"

section \<open>Properties\<close>

subsection \<open>Frames and the coercion step\<close>

lemma column_Some_in_columns: "column df c = Some xs \<Longrightarrow> c \<in> set (columns df)"
  by (auto simp: column_def columns_def dest: map_of_SomeD intro: rev_image_eqI)

lemma column_None_iff: "column df c = None \<longleftrightarrow> c \<notin> set (columns df)"
  by (simp add: column_def columns_def map_of_eq_None_iff)

lemma columns_set_column_present:
  "c \<in> set (columns df) \<Longrightarrow> columns (set_column df c xs) = columns df"
  by (auto simp: set_column_def columns_def)

lemma nrows_set_column: "nrows (set_column df c xs) = nrows df"
  by (simp add: set_column_def)

lemma map_of_replace_other:
  "c' \<noteq> c \<Longrightarrow> map_of (map (\<lambda>cx. if fst cx = c then (c, xs) else cx) ps) c' = map_of ps c'"
  by (induction ps) auto

lemma map_of_replace_same:
  "c \<in> fst ` set ps \<Longrightarrow> map_of (map (\<lambda>cx. if fst cx = c then (c, xs) else cx) ps) c = Some xs"
  by (induction ps) auto

lemma column_set_column_other:
  "c' \<noteq> c \<Longrightarrow> column (set_column df c xs) c' = column df c'"
  by (auto simp: set_column_def column_def columns_def map_of_replace_other map_add_def
      split: option.splits)

lemma column_set_column_same: "column (set_column df c xs) c = Some xs"
  by (auto simp: set_column_def column_def columns_def map_of_replace_same map_add_def
      split: option.splits dest: map_of_SomeD intro: rev_image_eqI)


lemma convert_preserves:
  "convert_cols_cat_to_num L df ts = Inr df' \<Longrightarrow>
     columns df' = columns df \<and> nrows df' = nrows df
     \<and> (\<forall>c. c \<notin> fst ` set ts \<longrightarrow> column df' c = column df c)"
proof (induction ts arbitrary: df)
  case Nil
  then show ?case by simp
next
  case (Cons ct ts)
  obtain col t where ct: "ct = (col, t)" by (cases ct)
  show ?case
  proof (cases "column df col")
    case None
    with Cons.prems ct have "convert_cols_cat_to_num L df ts = Inr df'" by simp
    from Cons.IH [OF this] show ?thesis by simp
  next
    case (Some xs)
    then have pres: "col \<in> set (columns df)" by (rule column_Some_in_columns)
    from Cons.prems Some ct obtain ys where ys: "astype L xs t = Inr ys"
      and rest: "convert_cols_cat_to_num L (set_column df col ys) ts = Inr df'"
      by (auto split: sum.splits)
    from Cons.IH [OF rest] pres ct show ?thesis
      by (auto simp: columns_set_column_present nrows_set_column column_set_column_other)
  qed
qed



lemma is_obj_free_nested:
  "\<forall>kv \<in> set items. \<forall>sub. snd kv \<noteq> JObj sub \<Longrightarrow> nested_to_record sep 0 prefix items new_d = new_d"
proof (induction items arbitrary: new_d)
  case Nil
  show ?case by simp
next
  case (Cons kv items)
  obtain k v where kv: "kv = (k, v)" by (cases kv)
  from Cons.prems kv have "\<forall>sub. v \<noteq> JObj sub" by simp
  then have "(case v of JObj sub \<Rightarrow> f sub | _ \<Rightarrow> new_d) = new_d" for f
    by (cases v) simp_all
  with Cons kv show ?case by simp
qed

lemma flatten_records_objects:
  "flatten_records sep (map JObj recs) = Inr (map (flatten_record sep) recs)"
  by (induction recs) simp_all

lemma set_union_keys: "set (union_keys rs) = (\<Union>r \<in> set rs. fst ` set r)"
  by (auto simp: union_keys_def)

lemma json_normalize_well_formed:
  assumes "map_of d path = Some (JArr (map JObj recs))"
  shows "json_normalize (JObj d) path sep = Inr (DataFrame (map (flatten_record sep) recs))"
  using assms by (simp add: json_normalize_def pull_records_def flatten_records_objects)

lemma row_DataFrame:
  "i < length rs \<Longrightarrow>
     row (DataFrame rs) i = map (\<lambda>c. (c, record_cell (rs ! i) c)) (union_keys rs)"
  by (simp add: row_def DataFrame_def)

text \<open>
  Claim C5. For a well-formed response (an object whose \<^verbatim>\<open>data\<close> field is a list
  of record objects) \<^verbatim>\<open>json_normalize\<close> succeeds; the frame has one row per
  record and every column one cell per record; its column set is the union of the keys
  of the flattened records, which for records without nested objects is the union of
  their own keys; and row \<open>i\<close> holds the values of record \<open>i\<close>, a missing key as
  \<open>Null\<close>, so the rows are in the order of the records.
\<close>

theorem json_normalize_rows_columns_order:
  assumes "map_of d ''data'' = Some (JArr (map JObj recs))"
  shows "\<exists>df. json_normalize (JObj d) ''data'' sep = Inr df
           \<and> nrows df = length recs
           \<and> (\<forall>cx \<in> set (cols df). length (snd cx) = length recs)
           \<and> set (columns df) = (\<Union>r \<in> set recs. fst ` set (flatten_record sep r))
           \<and> ((\<forall>r \<in> set recs. \<forall>kv \<in> set r. \<forall>sub. snd kv \<noteq> JObj sub)
                \<longrightarrow> set (columns df) = (\<Union>r \<in> set recs. fst ` set r))
           \<and> (\<forall>i < length recs.
                 row df i = map (\<lambda>c. (c, record_cell (flatten_record sep (recs ! i)) c)) (columns df))"
proof -
  let ?rs = "map (flatten_record sep) recs"
  let ?df = "DataFrame ?rs"
  have nf: "json_normalize (JObj d) ''data'' sep = Inr ?df"
    using assms by (rule json_normalize_well_formed)
  have n: "nrows ?df = length recs" by (simp add: DataFrame_def)
  have len: "\<forall>cx \<in> set (cols ?df). length (snd cx) = length recs"
    by (auto simp: DataFrame_def)
  have cs: "columns ?df = union_keys ?rs" by (simp add: columns_def DataFrame_def comp_def)
  have keys: "set (columns ?df) = (\<Union>r \<in> set recs. fst ` set (flatten_record sep r))"
    by (simp add: cs set_union_keys)
  have flat: "set (columns ?df) = (\<Union>r \<in> set recs. fst ` set r)"
    if "\<forall>r \<in> set recs. \<forall>kv \<in> set r. \<forall>sub. snd kv \<noteq> JObj sub"
  proof -
    have "flatten_record sep r = r" if "r \<in> set recs" for r
      using that \<open>\<forall>r \<in> set recs. \<forall>kv \<in> set r. \<forall>sub. snd kv \<noteq> JObj sub\<close>
      by (simp add: flatten_record_def is_obj_free_nested)
    then show ?thesis by (simp add: keys)
  qed
  have rows: "\<forall>i < length recs.
      row ?df i = map (\<lambda>c. (c, record_cell (flatten_record sep (recs ! i)) c)) (columns ?df)"
    by (simp add: row_DataFrame cs)
  from nf n len keys flat rows show ?thesis
    by (intro exI [of _ ?df] conjI impI) (assumption | simp)+
qed

theorem json_normalize_rows_columns_order_witness:
  "map_of [(''data'', JArr (map JObj [[(''a'', JObj [(''b'', JNum 1)]), (''c'', JNum 2)],
                                       [(''c'', JNull), (''d'', JStr ''x'')]])),
           (''timestamp'', JNum 3)] ''data''
     = Some (JArr (map JObj [[(''a'', JObj [(''b'', JNum 1)]), (''c'', JNum 2)],
                             [(''c'', JNull), (''d'', JStr ''x'')]]))
   \<and> json_normalize
         (JObj [(''data'', JArr (map JObj [[(''a'', JObj [(''b'', JNum 1)]), (''c'', JNum 2)],
                                            [(''c'', JNull), (''d'', JStr ''x'')]])),
                (''timestamp'', JNum 3)]) ''data'' ''.''
       = Inr \<lparr>nrows = 2,
              cols = [(''c'', [Num 2, Null]), (''a.b'', [Num 1, Null]), (''d'', [Null, Str ''x''])]\<rparr>"
proof -
  let ?recs = "[[(''a'', JObj [(''b'', JNum 1)]), (''c'', JNum 2)],
                [(''c'', JNull), (''d'', JStr ''x'')]]"
  let ?d = "[(''data'', JArr (map JObj ?recs)), (''timestamp'', JNum 3)]"
  have h: "map_of ?d ''data'' = Some (JArr (map JObj ?recs))" by simp
  have e: "json_normalize (JObj ?d) ''data'' ''.''
       = Inr \<lparr>nrows = 2,
              cols = [(''c'', [Num 2, Null]), (''a.b'', [Num 1, Null]), (''d'', [Null, Str ''x''])]\<rparr>"
    by code_simp
  show ?thesis
    using json_normalize_rows_columns_order [OF h, of "''.''"]
    apply -
    apply (rule conjI)
     apply (rule h)
    apply (rule e)
    done
qed

text \<open>
  Claim C4. On the response with the single record
  \<^verbatim>\<open>{"priceUsd": "16708.5235619029337193", "time": 1672617600000,
  "date": "2023-01-02T00:00:00.000Z"}\<close>, with the declared column types and rounding
  list of the time-series notebook, \<^verbatim>\<open>transform\<close> returns the frame with exactly one
  row, \<open>priceUsd = 16708.52\<close> and \<open>date = 2023-01-02\<close>, the \<^verbatim>\<open>time\<close> column
  dropped, and prints nothing.
\<close>

theorem time_series_scenario:
  "transform_time_series py time_series_response cols_datatypes_time_series
     cols_to_round_time_series
   = (Inr (Some \<lparr>nrows = 1,
                 cols = [(''priceUsd'', [Num (1670852 / 100)]), (''date'', [Date (2023, 1, 2)])]\<rparr>),
      [])"
  by code_simp



subsection \<open>Extraction and the CSV sink\<close>

text \<open>
  Claim C2. \<^verbatim>\<open>extract\<close> performs one GET and on a non-200 status should fail with an
  error that carries the status code. At status 500 the function prints the status and
  then fails with \<^verbatim>\<open>UnboundLocalError\<close>, raised by \<^verbatim>\<open>return raw_data_json\<close>:
  the exception does not carry the status code.
\<close>

theorem extract_non_success_status:
  "extract_json (\<lambda>url. Inr \<lparr>status_code = 500, json_body = Inr assets_response\<rparr>) assets_url
     = (Inl UnboundLocalError, [HttpGet assets_url], [NonSuccessStatus 500])"
  by (simp add: extract_json_def)

text \<open>
  Claim C8, as stated, fails: on a path that cannot be opened for writing
  \<^verbatim>\<open>df_to_csv\<close> does not fail. It returns normally after printing the error.
\<close>

theorem df_to_csv_swallows_write_failure:
  "df_to_csv py locked_disk (Some two_column_frame) assets_csv
     = (Inr (), locked_disk, [CsvError OSError])"
  by (simp add: df_to_csv_def to_csv_def locked_disk_def)

text \<open>
  Claim C8, amended. \<^verbatim>\<open>df_to_csv\<close> never raises. When the path cannot be opened for
  writing it prints the error and leaves the file system as it was; otherwise the file at
  the path holds the CSV text of the frame whatever it held before, every other file is
  untouched, and the success message is printed.
\<close>

theorem df_to_csv_returns_and_overwrites:
  "fst (df_to_csv L fs (Some df) p) = Inr ()
   \<and> (unwritable fs p \<longrightarrow> df_to_csv L fs (Some df) p = (Inr (), fs, [CsvError OSError]))
   \<and> (\<not> unwritable fs p \<longrightarrow>
        files (fst (snd (df_to_csv L fs (Some df) p))) p = Some (csv_of L df)
        \<and> (\<forall>q. q \<noteq> p \<longrightarrow> files (fst (snd (df_to_csv L fs (Some df) p))) q = files fs q)
        \<and> snd (snd (df_to_csv L fs (Some df) p)) = [CsvSaved p])"
  by (simp add: df_to_csv_def to_csv_def)

theorem df_to_csv_returns_and_overwrites_witness:
  "unwritable locked_disk assets_csv
   \<and> df_to_csv py locked_disk (Some two_column_frame) assets_csv
       = (Inr (), locked_disk, [CsvError OSError])
   \<and> \<not> unwritable used_disk assets_csv
   \<and> files used_disk assets_csv = Some ''old''
   \<and> files (fst (snd (df_to_csv py used_disk (Some two_column_frame) assets_csv))) assets_csv
       = Some (''rank,name'' @ [CHR 0x0A] @ ''1,Bitcoin'' @ [CHR 0x0A])"
proof -
  have a: "unwritable locked_disk assets_csv" by (simp add: locked_disk_def)
  have b: "\<not> unwritable used_disk assets_csv" by (simp add: used_disk_def)
  have c: "files used_disk assets_csv = Some ''old''" by (simp add: used_disk_def)
  have d: "csv_of py two_column_frame = ''rank,name'' @ [CHR 0x0A] @ ''1,Bitcoin'' @ [CHR 0x0A]"
    by code_simp
  note t1 = df_to_csv_returns_and_overwrites [of py locked_disk two_column_frame assets_csv]
  note t2 = df_to_csv_returns_and_overwrites [of py used_disk two_column_frame assets_csv]
  from t1 a have 1: "df_to_csv py locked_disk (Some two_column_frame) assets_csv
       = (Inr (), locked_disk, [CsvError OSError])" by blast
  from t2 b have 2: "files (fst (snd (df_to_csv py used_disk (Some two_column_frame) assets_csv))) assets_csv
       = Some (csv_of py two_column_frame)" by blast
  from a 1 b c 2 d show ?thesis by (simp only: simp_thms)
qed

subsection \<open>The order of the cells\<close>

lemma extract_json_trace:
  "extract_json g url = (r, tr, out) \<Longrightarrow> tr = [HttpGet url]"
  by (auto simp: extract_json_def split: sum.splits if_splits)

text \<open>
  Claim C9, as stated, fails: in a run where \<^verbatim>\<open>POSTGRES_USER\<close> is not set, the GET
  request and the CSV write happen before the configuration check raises.
\<close>

theorem network_request_before_configuration_check:
  "run_assets_notebook py world_without_user
     = (Some ValueError, [HttpGet assets_url, CsvWrite assets_csv, LoadDotenv],
        [CsvSaved assets_csv])"
  by code_simp

text \<open>
  Claim C9, amended. In every run of the asset-listing notebook in which one of the four
  settings is absent or empty, no database activity happens (no engine is created, no
  table is written or read), the run ends with an exception, and a run that reaches the
  configuration cell ends there with its \<^verbatim>\<open>ValueError\<close>.
\<close>

theorem missing_setting_no_database_activity:
  assumes "\<not> config_ok (environ w)"
  shows "list_all (\<lambda>ev. \<not> db_activity ev) (fst (snd (run_assets_notebook L w)))
         \<and> fst (run_assets_notebook L w) \<noteq> None
         \<and> (LoadDotenv \<in> set (fst (snd (run_assets_notebook L w)))
              \<longrightarrow> fst (run_assets_notebook L w) = Some ValueError)"
proof -
  obtain r tr out where ex: "extract_json (requests_get w) assets_url = (r, tr, out)"
    by (cases "extract_json (requests_get w) assets_url") auto
  then have tr: "tr = [HttpGet assets_url]" by (rule extract_json_trace)
  have lc: "load_cells w dfo = (Some ValueError, [LoadDotenv])" for dfo
    using assms by (simp add: load_cells_def)
  show ?thesis
    using ex tr lc
    by (auto simp: run_assets_notebook_def db_activity_def
        split: sum.splits option.splits prod.splits)
qed

theorem missing_setting_no_database_activity_witness:
  "\<not> config_ok (environ world_without_user)
   \<and> list_all (\<lambda>ev. \<not> db_activity ev) (fst (snd (run_assets_notebook py world_without_user)))
   \<and> fst (run_assets_notebook py world_without_user) = Some ValueError"
proof -
  have h: "\<not> config_ok (environ world_without_user)"
    by (simp add: config_ok_def world_without_user_def truthy_def)
  have l: "LoadDotenv \<in> set (fst (snd (run_assets_notebook py world_without_user)))"
    by code_simp
  from missing_setting_no_database_activity [OF h, of py] l h show ?thesis by blast
qed

subsection \<open>Failures inside the transformation\<close>

text \<open>
  Claim C1, as stated, fails: when the date column does not parse, \<^verbatim>\<open>transform\<close> of
  the time-series notebook raises nothing. The date step, and after it the drop step and
  the rounding step called on \<^verbatim>\<open>None\<close>, each print a message, and the function
  returns \<^verbatim>\<open>None\<close>.
\<close>

theorem date_failure_returns_none:
  "transform_time_series py bad_date_response cols_datatypes_time_series cols_to_round_time_series
     = (Inr None, [DateError ValueError, DropError AttributeError, RoundError TypeError])"
  by code_simp

subsection \<open>Coercion before rounding\<close>

text \<open>
  Claim C6, as stated, fails: a column named in \<^verbatim>\<open>cols_to_round\<close> but not in
  \<^verbatim>\<open>cols_datatypes\<close> is never cast, so a text value in it raises no coercion error;
  \<^verbatim>\<open>transform\<close> returns the table with the text left in place.
\<close>

theorem unrounded_string_no_coercion_error:
  "transform_time_series py bad_price_response [] [''priceUsd'']
     = (Inr (Some \<lparr>nrows = 1,
                   cols = [(''priceUsd'', [Str ''abc'']), (''date'', [Date (2023, 1, 2)])]\<rparr>),
        [])"
  by code_simp

lemma map_exn_fails:
  "x \<in> set xs \<Longrightarrow> f x = Inl e \<Longrightarrow> \<exists>e'. map_exn f xs = Inl e'"
  by (induction xs) (auto split: sum.splits)

lemma convert_typed_column:
  assumes "distinct (map fst ts)" "(c, t) \<in> set ts" "column df c = Some xs"
  shows "(\<forall>e. astype L xs t = Inl e \<longrightarrow> (\<exists>e'. convert_cols_cat_to_num L df ts = Inl e'))
       \<and> (\<forall>ys df'. astype L xs t = Inr ys \<longrightarrow> convert_cols_cat_to_num L df ts = Inr df'
              \<longrightarrow> column df' c = Some ys)"
  using assms
proof (induction ts arbitrary: df)
  case Nil
  then show ?case by simp
next
  case (Cons ct ts)
  obtain c' t' where ct: "ct = (c', t')" by (cases ct)
  show ?case
  proof (cases "c' = c")
    case True
    with Cons.prems ct have t: "t' = t" and notin: "c \<notin> fst ` set ts"
      by (auto simp: rev_image_eqI)
    show ?thesis
    proof (cases "astype L xs t")
      case (Inl e)
      with True t ct Cons.prems(3) show ?thesis by simp
    next
      case (Inr ys)
      have "column df' c = Some ys"
        if "convert_cols_cat_to_num L (set_column df c ys) ts = Inr df'" for df'
        using convert_preserves [OF that] notin by (simp add: column_set_column_same)
      with Inr True t ct Cons.prems(3) show ?thesis by simp
    qed
  next
    case False
    with Cons.prems ct have d: "distinct (map fst ts)" and m: "(c, t) \<in> set ts" by auto
    show ?thesis
    proof (cases "column df c'")
      case None
      with Cons.IH [OF d m Cons.prems(3)] ct show ?thesis by simp
    next
      case (Some xs')
      show ?thesis
      proof (cases "astype L xs' t'")
        case (Inl e)
        with Some ct show ?thesis by simp
      next
        case (Inr ys')
        have "column (set_column df c' ys') c = Some xs"
          using False Cons.prems(3) by (simp add: column_set_column_other)
        from Cons.IH [OF d m this] Some Inr ct show ?thesis by simp
      qed
    qed
  qed
qed

text \<open>
  Claim C6, amended. When the type dictionary names the column and the column holds a
  value its cast rejects, the coercion step fails, and both \<^verbatim>\<open>transform\<close> functions
  fail with the exception of the coercion step; the rounding step is not reached and
  nothing is printed.
\<close>

theorem coercion_error_before_rounding:
  assumes "json_normalize raw ''data'' ''.'' = Inr df0"
    and "distinct (map fst ts)"
    and "(c, t) \<in> set ts"
    and "column df0 c = Some xs"
    and "v \<in> set xs"
    and "astype_cell L t v = Inl e0"
  shows "\<exists>e. convert_cols_cat_to_num L df0 ts = Inl e
           \<and> transform_time_series L raw ts rs = (Inl e, [])
           \<and> transform_assets L raw ts rs = Inl e"
proof -
  from map_exn_fails [of v xs "astype_cell L t" e0] assms(5) assms(6)
  obtain e1 where "astype L xs t = Inl e1"
    by (auto simp: astype_def)
  with convert_typed_column [OF assms(2) assms(3) assms(4), of L]
  obtain e where e: "convert_cols_cat_to_num L df0 ts = Inl e" by blast
  with assms(1) show ?thesis
    by (simp add: transform_time_series_def transform_assets_def)
qed

theorem coercion_error_before_rounding_witness:
  "transform_assets py bad_price_response cols_datatypes_assets cols_to_round_assets = Inl ValueError"
proof -
  let ?df0 = "\<lparr>nrows = 1, cols = [(''priceUsd'', [Str ''abc'']), (''time'', [Num 1672617600000]),
                                 (''date'', [Str ''2023-01-02T00:00:00.000Z''])]\<rparr>"
  have n: "json_normalize bad_price_response ''data'' ''.'' = Inr ?df0"
    by code_simp
  have d: "distinct (map fst cols_datatypes_assets)" by code_simp
  have m: "(''priceUsd'', TFloat) \<in> set cols_datatypes_assets"
    by (simp add: cols_datatypes_assets_def)
  have col: "column ?df0 ''priceUsd'' = Some [Str ''abc'']" by (simp add: column_def)
  have v: "Str ''abc'' \<in> set [Str ''abc'']" by simp
  have a: "astype_cell py TFloat (Str ''abc'') = Inl ValueError" by code_simp
  have c: "convert_cols_cat_to_num py ?df0 cols_datatypes_assets = Inl ValueError" by code_simp
  from coercion_error_before_rounding [OF n d m col v a, of cols_to_round_assets] c
  show ?thesis by auto
qed

subsection \<open>Rounding and null substitution\<close>

lemma rint_of_int: "rint (of_int k) = k"
  by (simp add: rint_def)

lemma round2_idem: "round2 (round2 x) = round2 x"
  by (simp add: round2_def rint_of_int)

lemma round2_of_int: "round2 (of_int i) = of_int i"
proof -
  have "rint (of_int i * 100) = i * 100"
    using rint_of_int [of "i * 100"] by simp
  then show ?thesis by (simp add: round2_def)
qed

lemma round2_zero: "round2 0 = 0"
  using round2_of_int [of 0] by simp

lemma is_numeric_round_cell: "is_numeric (round_cell c) = is_numeric c"
  by (cases c) simp_all

lemma round_cell_idem: "round_cell (round_cell c) = round_cell c"
  by (cases c) (simp_all add: round2_idem)

lemma round_series_idem: "round_series (round_series xs) = round_series xs"
  by (simp add: round_series_def list_all_iff is_numeric_round_cell round_cell_idem)

lemma length_round_series: "length (round_series xs) = length xs"
  by (simp add: round_series_def)

lemma round_cell_Null_iff: "round_cell c = Null \<longleftrightarrow> c = Null"
  by (cases c) simp_all

lemma Null_map_round_cell: "Null \<in> set (map round_cell xs) \<longleftrightarrow> Null \<in> set xs"
  by (induction xs) (auto simp: round_cell_Null_iff dest: sym)

lemma Null_round_series: "Null \<in> set (round_series xs) \<longleftrightarrow> Null \<in> set xs"
  using Null_map_round_cell [of xs] by (simp add: round_series_def)

lemma round_series_nth_zero:
  "i < length xs \<Longrightarrow> xs ! i = Num 0 \<Longrightarrow> round_series xs ! i = Num 0"
  by (simp add: round_series_def round2_zero)

lemma round_series_nth_Str:
  "i < length xs \<Longrightarrow> xs ! i = Str s \<Longrightarrow> round_series xs ! i = Str s"
  by (auto simp: round_series_def list_all_length)

lemma round_each_column:
  "column (round_each d rs) c
     = (if c \<in> set rs then map_option round_series (column d c) else column d c)"
proof (induction rs arbitrary: d)
  case Nil
  show ?case by simp
next
  case (Cons r rs)
  show ?case
  proof (cases "column d r")
    case None
    with Cons.IH [of d] show ?thesis by auto
  next
    case (Some xs)
    let ?d = "set_column d r (round_series xs)"
    have same: "column ?d r = Some (round_series xs)" by (rule column_set_column_same)
    have other: "column ?d c = column d c" if "c \<noteq> r"
      using that by (rule column_set_column_other)
    show ?thesis
    proof (cases "c = r")
      case True
      with Cons.IH [of ?d] Some same show ?thesis by (simp add: round_series_idem)
    next
      case False
      with Cons.IH [of ?d] Some other show ?thesis by simp
    qed
  qed
qed

lemma map_exn_Inr:
  "map_exn f xs = Inr ys \<Longrightarrow> length ys = length xs \<and> (\<forall>i < length xs. f (xs ! i) = Inr (ys ! i))"
proof (induction xs arbitrary: ys)
  case Nil
  then show ?case by simp
next
  case (Cons x xs)
  from Cons.prems obtain y ys' where y: "f x = Inr y" and r: "map_exn f xs = Inr ys'"
    and ys: "ys = y # ys'"
    by (auto split: sum.splits)
  from Cons.IH [OF r] y ys show ?case by (auto simp: nth_Cons split: nat.splits)
qed

lemma Null_fillna: "v \<noteq> Null \<Longrightarrow> Null \<notin> set (fillna xs v)"
  by (auto simp: fillna_def)

lemma length_fillna: "length (fillna xs v) = length xs"
  by (simp add: fillna_def)

lemma fillna_nth: "i < length xs \<Longrightarrow> xs ! i = Null \<Longrightarrow> fillna xs v ! i = v"
  by (simp add: fillna_def)

lemma fill_column_Inr:
  "fill_column d c v = Inr d' \<Longrightarrow>
     \<exists>xs. column d c = Some xs \<and> d' = set_column d c (fillna xs v)"
  by (auto simp: fill_column_def split: option.splits)

lemma coerced_null_stays:
  assumes conv: "convert_cols_cat_to_num L df0 ts = Inr df1"
    and d: "distinct (map fst ts)" and nostr: "(c, TStr) \<notin> set ts"
    and c1: "column df1 c = Some xs1"
  shows "\<exists>xs0. column df0 c = Some xs0 \<and> length xs1 = length xs0
            \<and> (\<forall>i < length xs0. xs0 ! i = Null \<longrightarrow> xs1 ! i = Null)"
proof (cases "c \<in> fst ` set ts")
  case False
  with convert_preserves [OF conv] c1 show ?thesis by auto
next
  case True
  then obtain t where m: "(c, t) \<in> set ts" by auto
  with nostr have t: "t \<noteq> TStr" by auto
  from convert_preserves [OF conv] c1 have "c \<in> set (columns df0)"
    using column_Some_in_columns [OF c1] by simp
  then obtain xs0 where c0: "column df0 c = Some xs0"
    by (cases "column df0 c") (auto simp: column_None_iff)
  note tc = convert_typed_column [OF d m c0, of L]
  from tc conv obtain ys where a: "astype L xs0 t = Inr ys"
    by (cases "astype L xs0 t") auto
  with tc conv c1 have ys: "ys = xs1" by auto
  from map_exn_Inr [OF a [unfolded astype_def]] ys
  have len: "length xs1 = length xs0"
    and pt: "\<forall>i < length xs0. astype_cell L t (xs0 ! i) = Inr (xs1 ! i)" by auto
  have "xs1 ! i = Null" if "i < length xs0" "xs0 ! i = Null" for i
    using pt that t by (cases t) auto
  with c0 len show ?thesis by auto
qed


lemma round_each_column_cases:
  "column d c = Some xs \<Longrightarrow>
     \<exists>ys. column (round_each d rs) c = Some ys \<and> (ys = xs \<or> ys = round_series xs)"
  by (simp add: round_each_column)

lemma round_columns_Inr: "round_columns d rs = Inr d' \<Longrightarrow> d' = round_each d rs"
  by (auto simp: round_columns_def split: if_splits)

lemma filled_then_rounded:
  assumes "ys = fillna xs v \<or> ys = round_series (fillna xs v)" and "v = Num 0 \<or> v = Str s"
  shows "Null \<notin> set ys \<and> length ys = length xs
         \<and> (\<forall>i < length xs. xs ! i = Null \<longrightarrow> ys ! i = v)"
proof -
  from assms(2) have v: "v \<noteq> Null" by auto
  have n: "Null \<notin> set ys"
    using assms(1) Null_fillna [OF v, of xs] by (auto simp: Null_round_series)
  have l: "length ys = length xs"
    using assms(1) by (auto simp: length_round_series length_fillna)
  have "ys ! i = v" if "i < length xs" "xs ! i = Null" for i
  proof -
    have f: "fillna xs v ! i = v" using that by (rule fillna_nth)
    have li: "i < length (fillna xs v)" using that(1) by (simp add: length_fillna)
    from assms(2) have "round_series (fillna xs v) ! i = v"
    proof
      assume "v = Num 0"
      with f li show ?thesis by (simp add: round_series_nth_zero)
    next
      assume "v = Str s"
      with f li show ?thesis by (simp add: round_series_nth_Str)
    qed
    with f assms(1) show ?thesis by auto
  qed
  with n l show ?thesis by blast
qed

text \<open>
  Claim C3. Whenever \<^verbatim>\<open>transform\<close> of the asset-listing notebook returns a table,
  its \<^verbatim>\<open>maxSupply\<close> and \<^verbatim>\<open>explorer\<close> columns exist and hold no null, also when
  every raw value was null: every cell that is null when the substitution step runs
  holds the number 0 (\<^verbatim>\<open>maxSupply\<close>) or the text \<^verbatim>\<open>not available\<close>
  (\<^verbatim>\<open>explorer\<close>) in the result. With a type dictionary that does not cast the column to
  \<^verbatim>\<open>str\<close> (the declared one casts \<^verbatim>\<open>maxSupply\<close> to \<^verbatim>\<open>float\<close> and does not
  name \<^verbatim>\<open>explorer\<close>), every row whose raw \<^verbatim>\<open>maxSupply\<close> is null holds the number
  0, and every row whose raw \<^verbatim>\<open>explorer\<close> is null holds the text
  \<^verbatim>\<open>not available\<close>.
\<close>

theorem null_substitution_leaves_no_nulls:
  assumes norm: "json_normalize raw ''data'' ''.'' = Inr df0"
    and res: "transform_assets L raw ts rs = Inr df"
  shows "\<exists>ms ex.
      column df ''maxSupply'' = Some ms \<and> column df ''explorer'' = Some ex
      \<and> Null \<notin> set ms \<and> Null \<notin> set ex
      \<and> (\<exists>df1 ms1 ex1.
             convert_cols_cat_to_num L df0 ts = Inr df1
             \<and> column df1 ''maxSupply'' = Some ms1 \<and> length ms = length ms1
             \<and> (\<forall>i < length ms1. ms1 ! i = Null \<longrightarrow> ms ! i = Num 0)
             \<and> column df1 ''explorer'' = Some ex1 \<and> length ex = length ex1
             \<and> (\<forall>i < length ex1. ex1 ! i = Null \<longrightarrow> ex ! i = Str ''not available''))
      \<and> (distinct (map fst ts) \<and> (''maxSupply'', TStr) \<notin> set ts \<longrightarrow>
           (\<exists>ms0. column df0 ''maxSupply'' = Some ms0 \<and> length ms = length ms0
              \<and> (\<forall>i < length ms0. ms0 ! i = Null \<longrightarrow> ms ! i = Num 0)))
      \<and> (distinct (map fst ts) \<and> (''explorer'', TStr) \<notin> set ts \<longrightarrow>
           (\<exists>ex0. column df0 ''explorer'' = Some ex0 \<and> length ex = length ex0
              \<and> (\<forall>i < length ex0. ex0 ! i = Null \<longrightarrow> ex ! i = Str ''not available'')))"
proof -
  from res norm obtain df1 c1 c2 where
    conv: "convert_cols_cat_to_num L df0 ts = Inr df1"
    and f1: "fill_column df1 ''maxSupply'' (Num 0) = Inr c1"
    and f2: "fill_column c1 ''explorer'' (Str ''not available'') = Inr c2"
    and r: "round_columns c2 rs = Inr df"
    by (auto simp: transform_assets_def split: sum.splits)
  from fill_column_Inr [OF f1] obtain m1 where
    m1: "column df1 ''maxSupply'' = Some m1"
    and c1: "c1 = set_column df1 ''maxSupply'' (fillna m1 (Num 0))" by blast
  from fill_column_Inr [OF f2] obtain e1 where
    e1': "column c1 ''explorer'' = Some e1"
    and c2: "c2 = set_column c1 ''explorer'' (fillna e1 (Str ''not available''))" by blast
  have e1: "column df1 ''explorer'' = Some e1"
    using e1' c1 by (simp add: column_set_column_other)
  have cm: "column c2 ''maxSupply'' = Some (fillna m1 (Num 0))"
    using c1 c2 by (simp add: column_set_column_other column_set_column_same)
  have ce: "column c2 ''explorer'' = Some (fillna e1 (Str ''not available''))"
    using c2 by (simp add: column_set_column_same)
  have df: "df = round_each c2 rs" using r by (rule round_columns_Inr)
  from round_each_column_cases [OF cm, of rs] df obtain ms where
    ms: "column df ''maxSupply'' = Some ms"
    and msc: "ms = fillna m1 (Num 0) \<or> ms = round_series (fillna m1 (Num 0))" by auto
  from round_each_column_cases [OF ce, of rs] df obtain ex where
    ex: "column df ''explorer'' = Some ex"
    and exc: "ex = fillna e1 (Str ''not available'')
              \<or> ex = round_series (fillna e1 (Str ''not available''))" by auto
  note pm = filled_then_rounded [OF msc, of "''not available''"]
  note pe = filled_then_rounded [OF exc, of "''not available''"]
  have rawm: "\<exists>ms0. column df0 ''maxSupply'' = Some ms0 \<and> length ms = length ms0
              \<and> (\<forall>i < length ms0. ms0 ! i = Null \<longrightarrow> ms ! i = Num 0)"
    if "distinct (map fst ts)" "(''maxSupply'', TStr) \<notin> set ts"
    using coerced_null_stays [OF conv that m1] pm by auto
  have rawe: "\<exists>ex0. column df0 ''explorer'' = Some ex0 \<and> length ex = length ex0
              \<and> (\<forall>i < length ex0. ex0 ! i = Null \<longrightarrow> ex ! i = Str ''not available'')"
    if "distinct (map fst ts)" "(''explorer'', TStr) \<notin> set ts"
    using coerced_null_stays [OF conv that e1] pe by auto
  from pm pe have nn: "Null \<notin> set ms" "Null \<notin> set ex" by simp_all
  from pm have lm: "length ms = length m1"
    and vm: "\<forall>i < length m1. m1 ! i = Null \<longrightarrow> ms ! i = Num 0" by simp_all
  from pe have le: "length ex = length e1"
    and ve: "\<forall>i < length e1. e1 ! i = Null \<longrightarrow> ex ! i = Str ''not available''" by simp_all
  have step: "\<exists>df1 ms1 ex1.
             convert_cols_cat_to_num L df0 ts = Inr df1
             \<and> column df1 ''maxSupply'' = Some ms1 \<and> length ms = length ms1
             \<and> (\<forall>i < length ms1. ms1 ! i = Null \<longrightarrow> ms ! i = Num 0)
             \<and> column df1 ''explorer'' = Some ex1 \<and> length ex = length ex1
             \<and> (\<forall>i < length ex1. ex1 ! i = Null \<longrightarrow> ex ! i = Str ''not available'')"
    apply (rule exI [of _ df1])
    apply (rule exI [of _ m1])
    apply (rule exI [of _ e1])
    apply (intro conjI)
          apply (rule conv)
         apply (rule m1)
        apply (rule lm)
       apply (rule vm)
      apply (rule e1)
     apply (rule le)
    apply (rule ve)
    done
  have c5: "distinct (map fst ts) \<and> (''maxSupply'', TStr) \<notin> set ts \<longrightarrow>
           (\<exists>ms0. column df0 ''maxSupply'' = Some ms0 \<and> length ms = length ms0
              \<and> (\<forall>i < length ms0. ms0 ! i = Null \<longrightarrow> ms ! i = Num 0))"
    using rawm by (intro impI) (elim conjE)
  have c6: "distinct (map fst ts) \<and> (''explorer'', TStr) \<notin> set ts \<longrightarrow>
           (\<exists>ex0. column df0 ''explorer'' = Some ex0 \<and> length ex = length ex0
              \<and> (\<forall>i < length ex0. ex0 ! i = Null \<longrightarrow> ex ! i = Str ''not available''))"
    using rawe by (intro impI) (elim conjE)
  show ?thesis
    apply (rule exI [of _ ms])
    apply (rule exI [of _ ex])
    apply (intro conjI)
          apply (rule ms)
         apply (rule ex)
        apply (rule nn(1))
       apply (rule nn(2))
      apply (rule step)
     apply (rule c5)
    apply (rule c6)
    done
qed

theorem null_substitution_leaves_no_nulls_witness:
  "transform_assets py assets_response cols_datatypes_assets cols_to_round_assets
     = Inr \<lparr>nrows = 1,
            cols = [(''id'', [Str ''bitcoin'']), (''rank'', [Num 1]), (''symbol'', [Str ''BTC'']),
                    (''name'', [Str ''Bitcoin'']), (''supply'', [Num 19710390]),
                    (''maxSupply'', [Num 0]), (''marketCapUsd'', [Num (136766300000012 / 100)]),
                    (''volumeUsd24Hr'', [Num (39616730005 / 10)]),
                    (''priceUsd'', [Num (6938791 / 100)]),
                    (''changePercent24Hr'', [Num (- 33 / 100)]),
                    (''vwap24Hr'', [Num (6967050 / 100)]),
                    (''explorer'', [Str ''not available''])]\<rparr>"
proof -
  let ?out = "\<lparr>nrows = 1,
            cols = [(''id'', [Str ''bitcoin'']), (''rank'', [Num 1]), (''symbol'', [Str ''BTC'']),
                    (''name'', [Str ''Bitcoin'']), (''supply'', [Num 19710390]),
                    (''maxSupply'', [Num 0]), (''marketCapUsd'', [Num (136766300000012 / 100)]),
                    (''volumeUsd24Hr'', [Num (39616730005 / 10)]),
                    (''priceUsd'', [Num (6938791 / 100)]),
                    (''changePercent24Hr'', [Num (- 33 / 100)]),
                    (''vwap24Hr'', [Num (6967050 / 100)]),
                    (''explorer'', [Str ''not available''])]\<rparr>"
  have n: "json_normalize assets_response ''data'' ''.''
             = Inr (DataFrame [flatten_record ''.'' asset_record])"
    by (simp add: assets_response_def json_normalize_def pull_records_def)
  have t: "transform_assets py assets_response cols_datatypes_assets cols_to_round_assets = Inr ?out"
    by code_simp
  show ?thesis
    using null_substitution_leaves_no_nulls [OF n t]
    apply -
    apply (rule t)
    done
qed

subsection \<open>Running coercion and rounding again\<close>

lemma trunc_of_int: "trunc (of_int i) = of_int i"
  by (simp add: trunc_def)

lemma trunc_idem: "trunc (trunc x) = trunc x"
  by (simp add: trunc_def)

lemma trunc_is_int: "\<exists>i. trunc x = of_int i"
  by (auto simp: trunc_def)

lemma cast_settles:
  assumes "\<forall>s. str_of_cell L (Str s) = s" and "astype_cell L t c = Inr c'"
  shows "settles L t c'"
proof (cases t)
  case TInt
  with assms(2) show ?thesis
    by (cases c) (auto simp: settles_def trunc_idem trunc_of_int split: option.splits)
next
  case TFloat
  with assms(2) show ?thesis
    by (cases c) (auto simp: settles_def split: option.splits)
next
  case TStr
  with assms show ?thesis by (auto simp: settles_def)
qed

lemma settles_round_cell: "settles L t c \<Longrightarrow> settles L t (round_cell c)"
proof (cases t)
  case TInt
  assume s: "settles L t c"
  show ?thesis
  proof (cases c)
    case (Num x)
    with s TInt have "trunc x = x" by (simp add: settles_def)
    with trunc_is_int [of x] obtain i where "x = of_int i" by auto
    with Num TInt show ?thesis by (simp add: settles_def round2_of_int trunc_of_int)
  qed (use s in simp_all)
next
  case TFloat
  assume "settles L t c"
  with TFloat show ?thesis by (cases c) (simp_all add: settles_def)
next
  case TStr
  assume "settles L t c"
  with TStr show ?thesis by (cases c) (simp_all add: settles_def)
qed

lemma settles_round_series:
  "list_all (settles L t) xs \<Longrightarrow> list_all (settles L t) (round_series xs)"
  by (auto simp: round_series_def list_all_iff settles_round_cell)

lemma settles_fillna_zero:
  "list_all (settles L t) xs \<Longrightarrow> list_all (settles L t) (fillna xs (Num 0))"
proof -
  assume a: "list_all (settles L t) xs"
  have z: "settles L t (Num 0)" if "Null \<in> set xs"
  proof (cases t)
    case TInt
    then show ?thesis using trunc_of_int [of 0] by (simp add: settles_def)
  next
    case TFloat
    then show ?thesis by (simp add: settles_def)
  next
    case TStr
    with a that show ?thesis by (auto simp: settles_def list_all_iff)
  qed
  with a show ?thesis by (auto simp: fillna_def list_all_iff)
qed

lemma map_exn_fixed: "list_all (\<lambda>x. f x = Inr x) xs \<Longrightarrow> map_exn f xs = Inr xs"
  by (induction xs) simp_all

lemma settled_astype: "list_all (settles L t) xs \<Longrightarrow> astype L xs t = Inr xs"
  unfolding astype_def settles_def by (rule map_exn_fixed)

lemma map_exn_image:
  "map_exn f xs = Inr ys \<Longrightarrow> \<forall>y \<in> set ys. \<exists>x. f x = Inr y"
proof (induction xs arbitrary: ys)
  case Nil
  then show ?case by simp
next
  case (Cons x xs)
  from Cons.prems obtain y ys' where "f x = Inr y" "map_exn f xs = Inr ys'" "ys = y # ys'"
    by (auto split: sum.splits)
  with Cons.IH [of ys'] show ?case by auto
qed

lemma converted_column_settled:
  assumes str: "\<forall>s. str_of_cell L (Str s) = s"
    and d: "distinct (map fst ts)" and m: "(c, t) \<in> set ts"
    and conv: "convert_cols_cat_to_num L df0 ts = Inr df1"
    and c1: "column df1 c = Some xs"
  shows "list_all (settles L t) xs"
proof -
  from convert_preserves [OF conv] column_Some_in_columns [OF c1]
  have "c \<in> set (columns df0)" by simp
  then obtain xs0 where c0: "column df0 c = Some xs0"
    by (cases "column df0 c") (auto simp: column_None_iff)
  note tc = convert_typed_column [OF d m c0, of L]
  from tc conv obtain ys where a: "astype L xs0 t = Inr ys"
    by (cases "astype L xs0 t") auto
  with tc conv c1 have "ys = xs" by auto
  with map_exn_image [OF a [unfolded astype_def]]
  have "\<forall>y \<in> set xs. \<exists>x. astype_cell L t x = Inr y" by simp
  with str show ?thesis by (auto simp: list_all_iff intro: cast_settles)
qed

lemma replace_absent:
  "c \<notin> fst ` set ps \<Longrightarrow> map (\<lambda>cx. if fst cx = c then (c, xs) else cx) ps = ps"
  by (induction ps) auto

lemma replace_same:
  "distinct (map fst ps) \<Longrightarrow> map_of ps c = Some xs \<Longrightarrow>
     map (\<lambda>cx. if fst cx = c then (c, xs) else cx) ps = ps"
proof (induction ps)
  case Nil
  then show ?case by simp
next
  case (Cons p ps)
  obtain k v where p: "p = (k, v)" by (cases p)
  show ?case
  proof (cases "k = c")
    case True
    with Cons.prems p have v: "v = xs" and notin: "c \<notin> fst ` set ps" by auto
    from replace_absent [OF notin, of xs] True v p show ?thesis by simp
  next
    case False
    with Cons.prems p have "distinct (map fst ps)" "map_of ps c = Some xs" by auto
    from Cons.IH [OF this] False p show ?thesis by simp
  qed
qed

lemma set_column_same:
  "distinct (columns df) \<Longrightarrow> column df c = Some xs \<Longrightarrow> set_column df c xs = df"
  using column_Some_in_columns [of df c xs]
  by (simp add: set_column_def column_def columns_def replace_same)

lemma convert_fixed:
  assumes "distinct (columns df)"
    and "\<forall>ct \<in> set ts. \<forall>xs. column df (fst ct) = Some xs \<longrightarrow> astype L xs (snd ct) = Inr xs"
  shows "convert_cols_cat_to_num L df ts = Inr df"
  using assms(2)
proof (induction ts)
  case Nil
  show ?case by simp
next
  case (Cons ct ts)
  obtain col t where ct: "ct = (col, t)" by (cases ct)
  from Cons.prems have rest: "convert_cols_cat_to_num L df ts = Inr df"
    by (intro Cons.IH) simp
  show ?case
  proof (cases "column df col")
    case None
    with rest ct show ?thesis by simp
  next
    case (Some xs)
    with Cons.prems ct have "astype L xs t = Inr xs" by simp
    with Some rest ct set_column_same [OF assms(1) Some] show ?thesis by simp
  qed
qed

lemma round_each_fixed:
  assumes "distinct (columns df)"
    and "\<forall>c \<in> set rs. \<forall>xs. column df c = Some xs \<longrightarrow> round_series xs = xs"
  shows "round_each df rs = df"
  using assms(2)
proof (induction rs)
  case Nil
  show ?case by simp
next
  case (Cons r rs)
  from Cons.prems have rest: "round_each df rs = df" by (intro Cons.IH) simp
  show ?case
  proof (cases "column df r")
    case None
    with rest show ?thesis by simp
  next
    case (Some xs)
    with Cons.prems have "round_series xs = xs" by simp
    with Some rest set_column_same [OF assms(1) Some] show ?thesis by simp
  qed
qed

lemma columns_round_each: "columns (round_each d rs) = columns d"
proof (induction rs arbitrary: d)
  case Nil
  show ?case by simp
next
  case (Cons r rs)
  show ?case
  proof (cases "column d r")
    case None
    with Cons.IH [of d] show ?thesis by simp
  next
    case (Some xs)
    from column_Some_in_columns [OF Some] Cons.IH [of "set_column d r (round_series xs)"] Some
    show ?thesis by (simp add: columns_set_column_present)
  qed
qed

lemma distinct_union_keys: "distinct (union_keys rs)"
  by (simp add: union_keys_def)

lemma columns_DataFrame: "columns (DataFrame rs) = union_keys rs"
  by (simp add: columns_def DataFrame_def comp_def)

lemma json_normalize_distinct:
  "json_normalize raw p sep = Inr df \<Longrightarrow> distinct (columns df)"
  by (auto simp: json_normalize_def columns_DataFrame distinct_union_keys split: sum.splits)


lemma map_of_filter_fst:
  "map_of (filter (\<lambda>cx. fst cx \<notin> S) ps) c = (if c \<in> S then None else map_of ps c)"
  by (induction ps) auto

lemma column_dropped:
  "column (df\<lparr>cols := filter (\<lambda>cx. fst cx \<notin> S) (cols df)\<rparr>) c
     = (if c \<in> S then None else column df c)"
  by (simp add: column_def map_of_filter_fst)

lemma columns_dropped:
  "columns (df\<lparr>cols := filter (\<lambda>cx. fst cx \<notin> S) (cols df)\<rparr>)
     = filter (\<lambda>c. c \<notin> S) (columns df)"
  by (simp add: columns_def filter_map comp_def)

lemma rerun_fixed:
  assumes dist: "distinct (columns d2)"
    and sub: "set rs \<subseteq> set (columns d2)"
    and once: "distinct rs"
    and settled: "\<forall>ct \<in> set ts. \<forall>xs. column d2 (fst ct) = Some xs
                    \<longrightarrow> list_all (settles L (snd ct)) xs"
  shows "convert_cols_cat_to_num L (round_each d2 rs) ts = Inr (round_each d2 rs)
         \<and> round_columns (round_each d2 rs) rs = Inr (round_each d2 rs)"
proof -
  let ?df = "round_each d2 rs"
  have cols: "columns ?df = columns d2" by (rule columns_round_each)
  with dist have d: "distinct (columns ?df)" by simp
  have "astype L xs (snd ct) = Inr xs"
    if "ct \<in> set ts" "column ?df (fst ct) = Some xs" for ct xs
  proof -
    from that(2) obtain X where X: "column d2 (fst ct) = Some X"
      and xs: "xs = X \<or> xs = round_series X"
      by (auto simp: round_each_column split: if_splits)
    from settled that(1) X have "list_all (settles L (snd ct)) X" by blast
    with xs have "list_all (settles L (snd ct)) xs" by (auto intro: settles_round_series)
    then show ?thesis by (rule settled_astype)
  qed
  then have 1: "convert_cols_cat_to_num L ?df ts = Inr ?df"
    by (intro convert_fixed [OF d]) blast
  have "round_series xs = xs" if "c \<in> set rs" "column ?df c = Some xs" for c xs
    using that by (auto simp: round_each_column round_series_idem)
  then have "round_each ?df rs = ?df"
    by (intro round_each_fixed [OF d]) blast
  with sub cols once have 2: "round_columns ?df rs = Inr ?df" by (simp add: round_columns_def)
  from 1 2 show ?thesis by simp
qed

lemma transform_time_series_Some:
  assumes "transform_time_series L raw ts rs = (Inr (Some df), out)"
  shows "\<exists>df0 df1 xs ys.
      json_normalize raw ''data'' ''.'' = Inr df0
      \<and> convert_cols_cat_to_num L df0 ts = Inr df1
      \<and> column df1 ''date'' = Some xs
      \<and> to_datetime_date L xs = Inr ys
      \<and> distinct rs
      \<and> set rs \<subseteq> set (columns ((set_column df1 ''date'' ys)
              \<lparr>cols := filter (\<lambda>cx. fst cx \<notin> set [''time'']) (cols (set_column df1 ''date'' ys))\<rparr>))
      \<and> df = round_each ((set_column df1 ''date'' ys)
              \<lparr>cols := filter (\<lambda>cx. fst cx \<notin> set [''time'']) (cols (set_column df1 ''date'' ys))\<rparr>) rs"
proof -
  from assms obtain df0 where n: "json_normalize raw ''data'' ''.'' = Inr df0"
    by (cases "json_normalize raw ''data'' ''.''") (auto simp: transform_time_series_def)
  from assms n obtain df1 where c: "convert_cols_cat_to_num L df0 ts = Inr df1"
    by (cases "convert_cols_cat_to_num L df0 ts") (auto simp: transform_time_series_def)
  obtain d1 o1 where cd: "convert_iso_date_to_datetime L df1 ''date'' = (d1, o1)"
    by (cases "convert_iso_date_to_datetime L df1 ''date''") auto
  obtain d2 o2 where dr: "drop_columns d1 [''time''] = (d2, o2)"
    by (cases "drop_columns d1 [''time'']") auto
  from assms n c cd dr have r: "fst (round_to_two_decimal_places d2 rs) = Some df"
    by (auto simp: transform_time_series_def split: prod.splits)
  then obtain d2' where d2: "d2 = Some d2'" and rc: "round_columns d2' rs = Inr df"
    by (auto simp: round_to_two_decimal_places_def split: option.splits sum.splits)
  from dr d2 obtain d1' where d1: "d1 = Some d1'"
    and d2': "d2' = d1'\<lparr>cols := filter (\<lambda>cx. fst cx \<notin> set [''time'']) (cols d1')\<rparr>"
    by (auto simp: drop_columns_def split: option.splits if_splits)
  from cd d1 obtain xs ys where x: "column df1 ''date'' = Some xs"
    and y: "to_datetime_date L xs = Inr ys" and d1': "d1' = set_column df1 ''date'' ys"
    by (auto simp: convert_iso_date_to_datetime_def split: option.splits sum.splits)
  from rc have "distinct rs" "set rs \<subseteq> set (columns d2')" "df = round_each d2' rs"
    by (auto simp: round_columns_def split: if_splits)
  with n c x y d2' d1' show ?thesis by blast
qed

text \<open>
  Claim C7, as stated, fails when the type dictionary names a column that a later step
  rewrites. With \<^verbatim>\<open>explorer\<close> declared \<^verbatim>\<open>float\<close>, a null explorer becomes the text
  \<^verbatim>\<open>not available\<close>, and the coercion step run again on the output fails on it.
  With \<^verbatim>\<open>date\<close> declared \<^verbatim>\<open>str\<close>, the output holds dates, and the coercion step
  run again turns them into text.
\<close>

theorem rerun_changes_cast_columns:
  "transform_assets py null_assets_response [(''explorer'', TFloat)] []
     = Inr \<lparr>nrows = 1, cols = [(''maxSupply'', [Num 0]), (''explorer'', [Str ''not available''])]\<rparr>
   \<and> convert_cols_cat_to_num py
         \<lparr>nrows = 1, cols = [(''maxSupply'', [Num 0]), (''explorer'', [Str ''not available''])]\<rparr>
         [(''explorer'', TFloat)]
       = Inl ValueError
   \<and> transform_time_series py time_series_response [(''date'', TStr)] []
       = (Inr (Some \<lparr>nrows = 1,
                     cols = [(''priceUsd'', [Str ''16708.5235619029337193'']),
                             (''date'', [Date (2023, 1, 2)])]\<rparr>), [])
   \<and> convert_cols_cat_to_num py
         \<lparr>nrows = 1, cols = [(''priceUsd'', [Str ''16708.5235619029337193'']),
                             (''date'', [Date (2023, 1, 2)])]\<rparr>
         [(''date'', TStr)]
       = Inr \<lparr>nrows = 1, cols = [(''priceUsd'', [Str ''16708.5235619029337193'']),
                                  (''date'', [Str ''2023-01-02''])]\<rparr>"
  by code_simp

text \<open>
  Claim C7, amended. Let the type dictionary have distinct keys and let \<^verbatim>\<open>str\<close> leave a
  text as it is. If the dictionary does not name the \<^verbatim>\<open>date\<close> column, every table the
  time-series \<^verbatim>\<open>transform\<close> returns is unchanged by running the coercion step and
  the rounding step on it again; if it does not name the \<^verbatim>\<open>explorer\<close> column, the
  same holds for every table the asset-listing \<^verbatim>\<open>transform\<close> returns. The declared
  dictionaries of both notebooks are of this kind.
\<close>

theorem rerun_coercion_and_rounding_fixed:
  assumes d: "distinct (map fst ts)" and str: "\<forall>s. str_of_cell L (Str s) = s"
  shows "(''date'' \<notin> fst ` set ts \<longrightarrow>
            (\<forall>df out. transform_time_series L raw ts rs = (Inr (Some df), out) \<longrightarrow>
               convert_cols_cat_to_num L df ts = Inr df \<and> round_columns df rs = Inr df))
       \<and> (''explorer'' \<notin> fst ` set ts \<longrightarrow>
            (\<forall>df. transform_assets L raw ts rs = Inr df \<longrightarrow>
               convert_cols_cat_to_num L df ts = Inr df \<and> round_columns df rs = Inr df))"
proof (intro conjI impI allI)
  fix df out
  assume nd: "''date'' \<notin> fst ` set ts"
    and t: "transform_time_series L raw ts rs = (Inr (Some df), out)"
  from transform_time_series_Some [OF t] obtain df0 df1 xs ys where
    n: "json_normalize raw ''data'' ''.'' = Inr df0"
    and c: "convert_cols_cat_to_num L df0 ts = Inr df1"
    and x: "column df1 ''date'' = Some xs"
    and once: "distinct rs"
    and sub: "set rs \<subseteq> set (columns ((set_column df1 ''date'' ys)
              \<lparr>cols := filter (\<lambda>cx. fst cx \<notin> set [''time'']) (cols (set_column df1 ''date'' ys))\<rparr>))"
    and df: "df = round_each ((set_column df1 ''date'' ys)
              \<lparr>cols := filter (\<lambda>cx. fst cx \<notin> set [''time'']) (cols (set_column df1 ''date'' ys))\<rparr>) rs"
    by blast
  let ?d1 = "set_column df1 ''date'' ys"
  let ?d2 = "?d1\<lparr>cols := filter (\<lambda>cx. fst cx \<notin> set [''time'']) (cols ?d1)\<rparr>"
  have "distinct (columns df1)"
    using json_normalize_distinct [OF n] convert_preserves [OF c] by simp
  then have "distinct (columns ?d1)"
    using column_Some_in_columns [OF x] by (simp add: columns_set_column_present)
  then have dist: "distinct (columns ?d2)"
    unfolding columns_dropped by (rule distinct_filter)
  have settled: "\<forall>ct \<in> set ts. \<forall>zs. column ?d2 (fst ct) = Some zs
                    \<longrightarrow> list_all (settles L (snd ct)) zs"
  proof (intro ballI allI impI)
    fix ct zs
    assume m: "ct \<in> set ts" and z: "column ?d2 (fst ct) = Some zs"
    from m nd have ne: "fst ct \<noteq> ''date''" by (auto simp: rev_image_eqI)
    from z have "column ?d1 (fst ct) = Some zs"
      unfolding column_dropped by (simp split: if_splits)
    with ne have "column df1 (fst ct) = Some zs" by (simp add: column_set_column_other)
    with converted_column_settled [OF str d _ c, of "fst ct" "snd ct" zs] m
    show "list_all (settles L (snd ct)) zs" by simp
  qed
  from rerun_fixed [OF dist sub once settled] df
  show "convert_cols_cat_to_num L df ts = Inr df" and "round_columns df rs = Inr df" by simp_all
next
  fix df
  assume ne: "''explorer'' \<notin> fst ` set ts"
    and t: "transform_assets L raw ts rs = Inr df"
  from t obtain df0 df1 c1 c2 where
    n: "json_normalize raw ''data'' ''.'' = Inr df0"
    and c: "convert_cols_cat_to_num L df0 ts = Inr df1"
    and f1: "fill_column df1 ''maxSupply'' (Num 0) = Inr c1"
    and f2: "fill_column c1 ''explorer'' (Str ''not available'') = Inr c2"
    and r: "round_columns c2 rs = Inr df"
    by (auto simp: transform_assets_def split: sum.splits)
  from fill_column_Inr [OF f1] obtain m1 where
    m1: "column df1 ''maxSupply'' = Some m1"
    and c1: "c1 = set_column df1 ''maxSupply'' (fillna m1 (Num 0))" by blast
  from fill_column_Inr [OF f2] obtain e1 where
    e1: "column c1 ''explorer'' = Some e1"
    and c2: "c2 = set_column c1 ''explorer'' (fillna e1 (Str ''not available''))" by blast
  have "distinct (columns df1)"
    using json_normalize_distinct [OF n] convert_preserves [OF c] by simp
  then have "distinct (columns c1)"
    using column_Some_in_columns [OF m1] c1 by (simp add: columns_set_column_present)
  then have dist: "distinct (columns c2)"
    using column_Some_in_columns [OF e1] c2 by (simp add: columns_set_column_present)
  from r have sub: "set rs \<subseteq> set (columns c2)" and df: "df = round_each c2 rs"
    and once: "distinct rs"
    by (auto simp: round_columns_def split: if_splits)
  have settled: "\<forall>ct \<in> set ts. \<forall>zs. column c2 (fst ct) = Some zs
                    \<longrightarrow> list_all (settles L (snd ct)) zs"
  proof (intro ballI allI impI)
    fix ct zs
    assume m: "ct \<in> set ts" and z: "column c2 (fst ct) = Some zs"
    from m ne have nex: "fst ct \<noteq> ''explorer''" by (auto simp: rev_image_eqI)
    with z c2 have z1: "column c1 (fst ct) = Some zs" by (simp add: column_set_column_other)
    show "list_all (settles L (snd ct)) zs"
    proof (cases "fst ct = ''maxSupply''")
      case True
      with z1 c1 have zs: "zs = fillna m1 (Num 0)" by (simp add: column_set_column_same)
      from converted_column_settled [OF str d _ c m1, of "snd ct"] m True
      have "list_all (settles L (snd ct)) m1" by (cases ct) auto
      with zs show ?thesis by (simp add: settles_fillna_zero)
    next
      case False
      with z1 c1 have "column df1 (fst ct) = Some zs" by (simp add: column_set_column_other)
      with converted_column_settled [OF str d _ c, of "fst ct" "snd ct" zs] m
      show ?thesis by simp
    qed
  qed
  from rerun_fixed [OF dist sub once settled] df
  show "convert_cols_cat_to_num L df ts = Inr df" and "round_columns df rs = Inr df" by simp_all
qed


theorem rerun_coercion_and_rounding_fixed_witness:
  "distinct (map fst cols_datatypes_time_series)
   \<and> ''date'' \<notin> fst ` set cols_datatypes_time_series
   \<and> convert_cols_cat_to_num py
         \<lparr>nrows = 1,
            cols = [(''priceUsd'', [Num (1670852 / 100)]), (''date'', [Date (2023, 1, 2)])]\<rparr>
         cols_datatypes_time_series
       = Inr \<lparr>nrows = 1,
              cols = [(''priceUsd'', [Num (1670852 / 100)]), (''date'', [Date (2023, 1, 2)])]\<rparr>
   \<and> round_columns
         \<lparr>nrows = 1,
            cols = [(''priceUsd'', [Num (1670852 / 100)]), (''date'', [Date (2023, 1, 2)])]\<rparr>
         cols_to_round_time_series
       = Inr \<lparr>nrows = 1,
              cols = [(''priceUsd'', [Num (1670852 / 100)]), (''date'', [Date (2023, 1, 2)])]\<rparr>
   \<and> distinct (map fst cols_datatypes_assets)
   \<and> ''explorer'' \<notin> fst ` set cols_datatypes_assets
   \<and> convert_cols_cat_to_num py
         \<lparr>nrows = 1, cols = [(''maxSupply'', [Num 0]), (''explorer'', [Str ''not available''])]\<rparr>
         cols_datatypes_assets
       = Inr \<lparr>nrows = 1, cols = [(''maxSupply'', [Num 0]), (''explorer'', [Str ''not available''])]\<rparr>"
proof -
  let ?out = "\<lparr>nrows = 1,
            cols = [(''priceUsd'', [Num (1670852 / 100)]), (''date'', [Date (2023, 1, 2)])]\<rparr>"
  let ?outa = "\<lparr>nrows = 1, cols = [(''maxSupply'', [Num 0]), (''explorer'', [Str ''not available''])]\<rparr>"
  have str: "\<forall>s. str_of_cell py (Str s) = s" by (simp add: py_def py_str_def)
  have d1: "distinct (map fst cols_datatypes_time_series)"
    by (simp add: cols_datatypes_time_series_def)
  have n1: "''date'' \<notin> fst ` set cols_datatypes_time_series"
    by (simp add: cols_datatypes_time_series_def)
  have t1: "transform_time_series py time_series_response cols_datatypes_time_series
              cols_to_round_time_series = (Inr (Some ?out), [])"
    by code_simp
  have d2: "distinct (map fst cols_datatypes_assets)" by code_simp
  have n2: "''explorer'' \<notin> fst ` set cols_datatypes_assets"
    by (simp add: cols_datatypes_assets_def)
  have t2: "transform_assets py null_assets_response cols_datatypes_assets [] = Inr ?outa"
    by code_simp
  from rerun_coercion_and_rounding_fixed
    [OF d1 str, of time_series_response cols_to_round_time_series] n1 t1
  have r1: "convert_cols_cat_to_num py ?out cols_datatypes_time_series = Inr ?out
            \<and> round_columns ?out cols_to_round_time_series = Inr ?out"
    by blast
  from rerun_coercion_and_rounding_fixed [OF d2 str, of null_assets_response "[]"] n2 t2
  have r2: "convert_cols_cat_to_num py ?outa cols_datatypes_assets = Inr ?outa"
    by blast
  from d1 n1 r1 d2 n2 r2 show ?thesis by (simp only: simp_thms)
qed

subsection \<open>No table and no sink after a failed step\<close>

lemma casts_done:
  assumes conv: "convert_cols_cat_to_num L df0 ts = Inr df1"
  shows "distinct (map fst ts) \<longrightarrow>
          (\<forall>ct \<in> set ts. \<forall>zs. column df0 (fst ct) = Some zs \<longrightarrow>
             (\<exists>zs'. astype L zs (snd ct) = Inr zs' \<and> column df1 (fst ct) = Some zs'))"
proof (intro impI ballI allI)
  fix ct zs
  assume d: "distinct (map fst ts)" and m: "ct \<in> set ts"
    and c0: "column df0 (fst ct) = Some zs"
  from m have m': "(fst ct, snd ct) \<in> set ts" by simp
  note tc = convert_typed_column [OF d m' c0, of L]
  from tc conv obtain zs' where a: "astype L zs (snd ct) = Inr zs'"
    by (cases "astype L zs (snd ct)") auto
  with tc conv have "column df1 (fst ct) = Some zs'" by blast
  with a show "\<exists>zs'. astype L zs (snd ct) = Inr zs' \<and> column df1 (fst ct) = Some zs'"
    by blast
qed


text \<open>
  Claim C1, amended. In both notebooks \<^verbatim>\<open>transform\<close> returns a table only when every
  step succeeded: the declared casts were applied, and in the time-series notebook the
  dates were parsed, the \<^verbatim>\<open>time\<close> column is gone and the listed columns are rounded,
  in the asset-listing notebook the two columns were filled and the listed columns are
  rounded. A failure of normalization or coercion, and in the asset-listing notebook of
  null substitution or rounding, leaves \<^verbatim>\<open>transform\<close> as that step's exception. A
  failure of the date step, the drop step or the rounding step of the time-series notebook
  is caught where it happens: the message printed first names that step and
  \<^verbatim>\<open>transform\<close> returns \<^verbatim>\<open>None\<close>. In a run of either notebook in which
  \<^verbatim>\<open>transform\<close> returns no table, neither the CSV sink nor the table-store sink is
  called and the run ends with an exception; when \<^verbatim>\<open>transform\<close> raised, the calling
  cell has printed its one generic message.
\<close>

theorem clean_failure_no_table_no_sink:
  "(\<forall>df out. transform_time_series L raw ts rs = (Inr (Some df), out) \<longrightarrow>
        out = []
        \<and> (\<exists>df0 df1 xs ys.
              json_normalize raw ''data'' ''.'' = Inr df0
            \<and> convert_cols_cat_to_num L df0 ts = Inr df1
            \<and> (distinct (map fst ts) \<longrightarrow>
                 (\<forall>ct \<in> set ts. \<forall>zs. column df0 (fst ct) = Some zs \<longrightarrow>
                    (\<exists>zs'. astype L zs (snd ct) = Inr zs' \<and> column df1 (fst ct) = Some zs')))
            \<and> column df1 ''date'' = Some xs \<and> to_datetime_date L xs = Inr ys
            \<and> ''time'' \<in> set (columns df1) \<and> ''time'' \<notin> set (columns df)
            \<and> distinct rs
            \<and> set rs \<subseteq> set (columns df)
            \<and> column df ''date'' = Some (if ''date'' \<in> set rs then round_series ys else ys)
            \<and> (\<forall>c. c \<noteq> ''date'' \<longrightarrow> c \<noteq> ''time'' \<longrightarrow>
                  column df c = (if c \<in> set rs then map_option round_series (column df1 c)
                                 else column df1 c))))
   \<and> ((\<forall>e. json_normalize raw ''data'' ''.'' = Inl e \<longrightarrow>
           transform_time_series L raw ts rs = (Inl e, []))
      \<and> (\<forall>df0. json_normalize raw ''data'' ''.'' = Inr df0 \<longrightarrow>
           (\<forall>e. convert_cols_cat_to_num L df0 ts = Inl e \<longrightarrow>
                 transform_time_series L raw ts rs = (Inl e, []))
           \<and> (\<forall>df1. convert_cols_cat_to_num L df0 ts = Inr df1 \<longrightarrow>
                 (column df1 ''date'' = None \<longrightarrow>
                    fst (transform_time_series L raw ts rs) = Inr None
                    \<and> take 1 (snd (transform_time_series L raw ts rs)) = [DateError KeyError])
                 \<and> (\<forall>xs e. column df1 ''date'' = Some xs \<longrightarrow> to_datetime_date L xs = Inl e \<longrightarrow>
                       fst (transform_time_series L raw ts rs) = Inr None
                       \<and> take 1 (snd (transform_time_series L raw ts rs)) = [DateError e])
                 \<and> (\<forall>xs ys. column df1 ''date'' = Some xs \<longrightarrow> to_datetime_date L xs = Inr ys \<longrightarrow>
                       (''time'' \<notin> set (columns df1) \<longrightarrow>
                          fst (transform_time_series L raw ts rs) = Inr None
                          \<and> take 1 (snd (transform_time_series L raw ts rs)) = [DropError KeyError])
                       \<and> (''time'' \<in> set (columns df1) \<longrightarrow>
                            \<not> set rs \<subseteq> set (columns df1) - {''time''} \<longrightarrow>
                            fst (transform_time_series L raw ts rs) = Inr None
                            \<and> take 1 (snd (transform_time_series L raw ts rs))
                                = [RoundError KeyError])))))
   \<and> (\<forall>df. transform_assets L raw ts rs = Inr df \<longrightarrow>
        (\<exists>df0 df1 m1 e1.
              json_normalize raw ''data'' ''.'' = Inr df0
            \<and> convert_cols_cat_to_num L df0 ts = Inr df1
            \<and> (distinct (map fst ts) \<longrightarrow>
                 (\<forall>ct \<in> set ts. \<forall>zs. column df0 (fst ct) = Some zs \<longrightarrow>
                    (\<exists>zs'. astype L zs (snd ct) = Inr zs' \<and> column df1 (fst ct) = Some zs')))
            \<and> column df1 ''maxSupply'' = Some m1 \<and> column df1 ''explorer'' = Some e1
            \<and> distinct rs
            \<and> set rs \<subseteq> set (columns df)
            \<and> column df ''maxSupply''
                = Some (if ''maxSupply'' \<in> set rs then round_series (fillna m1 (Num 0))
                        else fillna m1 (Num 0))
            \<and> column df ''explorer''
                = Some (if ''explorer'' \<in> set rs
                        then round_series (fillna e1 (Str ''not available''))
                        else fillna e1 (Str ''not available''))
            \<and> (\<forall>c. c \<noteq> ''maxSupply'' \<longrightarrow> c \<noteq> ''explorer'' \<longrightarrow>
                  column df c = (if c \<in> set rs then map_option round_series (column df1 c)
                                 else column df1 c))))
   \<and> ((\<forall>e. json_normalize raw ''data'' ''.'' = Inl e \<longrightarrow> transform_assets L raw ts rs = Inl e)
      \<and> (\<forall>df0. json_normalize raw ''data'' ''.'' = Inr df0 \<longrightarrow>
           (\<forall>e. convert_cols_cat_to_num L df0 ts = Inl e \<longrightarrow> transform_assets L raw ts rs = Inl e)
           \<and> (\<forall>df1. convert_cols_cat_to_num L df0 ts = Inr df1 \<longrightarrow>
                 (column df1 ''maxSupply'' = None \<longrightarrow> transform_assets L raw ts rs = Inl KeyError)
                 \<and> (column df1 ''explorer'' = None \<longrightarrow> transform_assets L raw ts rs = Inl KeyError)
                 \<and> (\<not> set rs \<subseteq> set (columns df1) \<longrightarrow>
                       transform_assets L raw ts rs = Inl KeyError))))
   \<and> ((\<forall>raw tr out e. extract_json (requests_get w) assets_url = (Inr raw, tr, out) \<longrightarrow>
           transform_assets L raw cols_datatypes_assets cols_to_round_assets = Inl e \<longrightarrow>
           list_all (\<lambda>ev. \<not> sink_activity ev) (fst (snd (run_assets_notebook L w)))
           \<and> fst (run_assets_notebook L w) \<noteq> None
           \<and> (explore_cells raw = None \<longrightarrow>
                run_assets_notebook L w
                  = (Some NameError, [HttpGet assets_url], out @ [TransformError])))
      \<and> (\<forall>raw tr out r out_t. extract_json (requests_get w) url = (Inr raw, tr, out) \<longrightarrow>
           transform_time_series L raw cols_datatypes_time_series cols_to_round_time_series
             = (r, out_t) \<longrightarrow>
           (\<forall>df. r \<noteq> Inr (Some df)) \<longrightarrow>
           list_all (\<lambda>ev. \<not> sink_activity ev) (fst (snd (run_time_series_notebook L w url)))
           \<and> fst (run_time_series_notebook L w url) \<noteq> None
           \<and> (explore_cells raw = None \<longrightarrow>
                (\<forall>e. r = Inl e \<longrightarrow>
                   run_time_series_notebook L w url
                     = (Some NameError, [HttpGet url], out @ out_t @ [TransformError]))
                \<and> (r = Inr None \<longrightarrow>
                     run_time_series_notebook L w url
                       = (Some AttributeError, [HttpGet url], out @ out_t)))))"
  (is "?ts_table \<and> ?ts_failure \<and> ?assets_table \<and> ?assets_failure \<and> ?no_sink")
proof -
  have ts_table: ?ts_table
  proof (intro allI impI)
    fix df out
    assume t: "transform_time_series L raw ts rs = (Inr (Some df), out)"
    from t obtain df0 where n: "json_normalize raw ''data'' ''.'' = Inr df0"
      by (cases "json_normalize raw ''data'' ''.''") (auto simp: transform_time_series_def)
    from t n obtain df1 where c: "convert_cols_cat_to_num L df0 ts = Inr df1"
      by (cases "convert_cols_cat_to_num L df0 ts") (auto simp: transform_time_series_def)
    obtain d1 o1 where cd: "convert_iso_date_to_datetime L df1 ''date'' = (d1, o1)"
      by (cases "convert_iso_date_to_datetime L df1 ''date''") auto
    obtain d2 o2 where dr: "drop_columns d1 [''time''] = (d2, o2)"
      by (cases "drop_columns d1 [''time'']") auto
    obtain d3 o3 where rd: "round_to_two_decimal_places d2 rs = (d3, o3)"
      by (cases "round_to_two_decimal_places d2 rs") auto
    from t n c cd dr rd have d3: "d3 = Some df" and out: "out = o1 @ o2 @ o3"
      by (auto simp: transform_time_series_def)
    from rd d3 obtain d2' where d2: "d2 = Some d2'" and rc: "round_columns d2' rs = Inr df"
      and o3: "o3 = []"
      by (auto simp: round_to_two_decimal_places_def split: option.splits sum.splits)
    from dr d2 obtain d1' where d1: "d1 = Some d1'" and pres: "''time'' \<in> set (columns d1')"
      and d2': "d2' = d1'\<lparr>cols := filter (\<lambda>cx. fst cx \<notin> set [''time'']) (cols d1')\<rparr>"
      and o2: "o2 = []"
      by (auto simp: drop_columns_def split: option.splits if_splits)
    from cd d1 obtain xs ys where x: "column df1 ''date'' = Some xs"
      and y: "to_datetime_date L xs = Inr ys" and d1': "d1' = set_column df1 ''date'' ys"
      and o1: "o1 = []"
      by (auto simp: convert_iso_date_to_datetime_def split: option.splits sum.splits)
    from rc have sub2: "set rs \<subseteq> set (columns d2')" and df: "df = round_each d2' rs"
      and once: "distinct rs"
      by (auto simp: round_columns_def split: if_splits)
    have cols1: "columns d1' = columns df1"
      using column_Some_in_columns [OF x] d1' by (simp add: columns_set_column_present)
    have cols2: "columns d2' = filter (\<lambda>c. c \<notin> set [''time'']) (columns d1')"
      unfolding d2' by (rule columns_dropped)
    have colsdf: "columns df = columns d2'" unfolding df by (rule columns_round_each)
    have col2: "column d2' c = (if c \<in> set [''time''] then None else column d1' c)" for c
      unfolding d2' by (rule column_dropped)
    have coldf: "column df c = (if c \<in> set rs then map_option round_series (column d2' c)
                                else column d2' c)" for c
      unfolding df by (rule round_each_column)
    have e0: "out = []" using out o1 o2 o3 by simp
    have e1: "''time'' \<in> set (columns df1)" using pres cols1 by simp
    have e2: "''time'' \<notin> set (columns df)" using colsdf cols2 by simp
    have e3: "set rs \<subseteq> set (columns df)" using sub2 colsdf by simp
    have e4: "column df ''date'' = Some (if ''date'' \<in> set rs then round_series ys else ys)"
      using coldf [of "''date''"] col2 [of "''date''"] d1'
      by (simp add: column_set_column_same)
    have e5: "\<forall>c. c \<noteq> ''date'' \<longrightarrow> c \<noteq> ''time'' \<longrightarrow>
                 column df c = (if c \<in> set rs then map_option round_series (column df1 c)
                                else column df1 c)"
    proof (intro allI impI)
      fix c :: string
      assume "c \<noteq> ''date''" "c \<noteq> ''time''"
      then have "column d2' c = column df1 c"
        using col2 [of c] d1' by (simp add: column_set_column_other)
      with coldf [of c] show "column df c = (if c \<in> set rs then map_option round_series (column df1 c)
                                else column df1 c)" by simp
    qed
    note e6 = casts_done [OF c]
    show "out = []
       \<and> (\<exists>df0 df1 xs ys.
             json_normalize raw ''data'' ''.'' = Inr df0
           \<and> convert_cols_cat_to_num L df0 ts = Inr df1
           \<and> (distinct (map fst ts) \<longrightarrow>
                (\<forall>ct \<in> set ts. \<forall>zs. column df0 (fst ct) = Some zs \<longrightarrow>
                   (\<exists>zs'. astype L zs (snd ct) = Inr zs' \<and> column df1 (fst ct) = Some zs')))
           \<and> column df1 ''date'' = Some xs \<and> to_datetime_date L xs = Inr ys
           \<and> ''time'' \<in> set (columns df1) \<and> ''time'' \<notin> set (columns df)
           \<and> distinct rs
           \<and> set rs \<subseteq> set (columns df)
           \<and> column df ''date'' = Some (if ''date'' \<in> set rs then round_series ys else ys)
           \<and> (\<forall>c. c \<noteq> ''date'' \<longrightarrow> c \<noteq> ''time'' \<longrightarrow>
                 column df c = (if c \<in> set rs then map_option round_series (column df1 c)
                                else column df1 c)))"
      apply (rule conjI)
       apply (rule e0)
      apply (rule exI [of _ df0])
      apply (rule exI [of _ df1])
      apply (rule exI [of _ xs])
      apply (rule exI [of _ ys])
      apply (intro conjI)
               apply (rule n)
              apply (rule c)
             apply (rule e6)
            apply (rule x)
           apply (rule y)
          apply (rule e1)
         apply (rule e2)
         apply (rule once)
        apply (rule e3)
       apply (rule e4)
      apply (rule e5)
      done
  qed
  have ts_failure: ?ts_failure
  proof -
    have norm: "transform_time_series L raw ts rs = (Inl e, [])"
      if "json_normalize raw ''data'' ''.'' = Inl e" for e
      using that by (simp add: transform_time_series_def)
    have coerce: "transform_time_series L raw ts rs = (Inl e, [])"
      if "json_normalize raw ''data'' ''.'' = Inr df0" "convert_cols_cat_to_num L df0 ts = Inl e"
      for df0 e
      using that by (simp add: transform_time_series_def)
    have nodate: "fst (transform_time_series L raw ts rs) = Inr None
                  \<and> take 1 (snd (transform_time_series L raw ts rs)) = [DateError KeyError]"
      if "json_normalize raw ''data'' ''.'' = Inr df0" "convert_cols_cat_to_num L df0 ts = Inr df1"
        "column df1 ''date'' = None"
      for df0 df1
      using that
      by (simp add: transform_time_series_def convert_iso_date_to_datetime_def drop_columns_def
          round_to_two_decimal_places_def)
    have baddate: "fst (transform_time_series L raw ts rs) = Inr None
                  \<and> take 1 (snd (transform_time_series L raw ts rs)) = [DateError e]"
      if "json_normalize raw ''data'' ''.'' = Inr df0" "convert_cols_cat_to_num L df0 ts = Inr df1"
        "column df1 ''date'' = Some xs" "to_datetime_date L xs = Inl e"
      for df0 df1 xs e
      using that
      by (simp add: transform_time_series_def convert_iso_date_to_datetime_def drop_columns_def
          round_to_two_decimal_places_def)
    have notime: "fst (transform_time_series L raw ts rs) = Inr None
                  \<and> take 1 (snd (transform_time_series L raw ts rs)) = [DropError KeyError]"
      if "json_normalize raw ''data'' ''.'' = Inr df0" "convert_cols_cat_to_num L df0 ts = Inr df1"
        "column df1 ''date'' = Some xs" "to_datetime_date L xs = Inr ys"
        "''time'' \<notin> set (columns df1)"
      for df0 df1 xs ys
    proof -
      have "columns (set_column df1 ''date'' ys) = columns df1"
        using column_Some_in_columns [OF that(3)] by (rule columns_set_column_present)
      with that show ?thesis
        by (simp add: transform_time_series_def convert_iso_date_to_datetime_def drop_columns_def
            round_to_two_decimal_places_def)
    qed
    have noround: "fst (transform_time_series L raw ts rs) = Inr None
                  \<and> take 1 (snd (transform_time_series L raw ts rs)) = [RoundError KeyError]"
      if "json_normalize raw ''data'' ''.'' = Inr df0" "convert_cols_cat_to_num L df0 ts = Inr df1"
        "column df1 ''date'' = Some xs" "to_datetime_date L xs = Inr ys"
        "''time'' \<in> set (columns df1)" "\<not> set rs \<subseteq> set (columns df1) - {''time''}"
      for df0 df1 xs ys
    proof -
      let ?d1 = "set_column df1 ''date'' ys"
      let ?d2 = "?d1\<lparr>cols := filter (\<lambda>cx. fst cx \<notin> set [''time'']) (cols ?d1)\<rparr>"
      have c1: "columns ?d1 = columns df1"
        using column_Some_in_columns [OF that(3)] by (rule columns_set_column_present)
      have "columns ?d2 = filter (\<lambda>c. c \<notin> set [''time'']) (columns ?d1)"
        by (rule columns_dropped)
      with c1 have "set (columns ?d2) = set (columns df1) - {''time''}" by auto
      with that(6) have "round_columns ?d2 rs = Inl KeyError" by (simp add: round_columns_def)
      moreover have "drop_columns (Some ?d1) [''time''] = (Some ?d2, [])"
        using that(5) c1 by (simp add: drop_columns_def)
      moreover have "convert_iso_date_to_datetime L df1 ''date'' = (Some ?d1, [])"
        using that(3,4) by (simp add: convert_iso_date_to_datetime_def)
      ultimately show ?thesis
        using that(1,2)
        by (simp add: transform_time_series_def round_to_two_decimal_places_def)
    qed
    from norm coerce nodate baddate notime noround show ?thesis by blast
  qed
  have assets_table: ?assets_table
  proof (intro allI impI)
    fix df
    assume t: "transform_assets L raw ts rs = Inr df"
    from t obtain df0 df1 c1 c2 where
      n: "json_normalize raw ''data'' ''.'' = Inr df0"
      and c: "convert_cols_cat_to_num L df0 ts = Inr df1"
      and f1: "fill_column df1 ''maxSupply'' (Num 0) = Inr c1"
      and f2: "fill_column c1 ''explorer'' (Str ''not available'') = Inr c2"
      and r: "round_columns c2 rs = Inr df"
      by (auto simp: transform_assets_def split: sum.splits)
    from fill_column_Inr [OF f1] obtain m1 where
      m1: "column df1 ''maxSupply'' = Some m1"
      and c1: "c1 = set_column df1 ''maxSupply'' (fillna m1 (Num 0))" by blast
    from fill_column_Inr [OF f2] obtain e1 where
      e1': "column c1 ''explorer'' = Some e1"
      and c2: "c2 = set_column c1 ''explorer'' (fillna e1 (Str ''not available''))" by blast
    have e1: "column df1 ''explorer'' = Some e1"
      using e1' c1 by (simp add: column_set_column_other)
    from r have sub2: "set rs \<subseteq> set (columns c2)" and df: "df = round_each c2 rs"
      and once: "distinct rs"
      by (auto simp: round_columns_def split: if_splits)
    have colsdf: "columns df = columns c2" unfolding df by (rule columns_round_each)
    have coldf: "column df k = (if k \<in> set rs then map_option round_series (column c2 k)
                                else column c2 k)" for k
      unfolding df by (rule round_each_column)
    have cm: "column c2 ''maxSupply'' = Some (fillna m1 (Num 0))"
      using c1 c2 by (simp add: column_set_column_other column_set_column_same)
    have ce: "column c2 ''explorer'' = Some (fillna e1 (Str ''not available''))"
      using c2 by (simp add: column_set_column_same)
    have a3: "set rs \<subseteq> set (columns df)" using sub2 colsdf by simp
    have a4: "column df ''maxSupply''
               = Some (if ''maxSupply'' \<in> set rs then round_series (fillna m1 (Num 0))
                       else fillna m1 (Num 0))"
      using coldf [of "''maxSupply''"] cm by simp
    have a5: "column df ''explorer''
               = Some (if ''explorer'' \<in> set rs
                       then round_series (fillna e1 (Str ''not available''))
                       else fillna e1 (Str ''not available''))"
      using coldf [of "''explorer''"] ce by simp
    have a6: "\<forall>k. k \<noteq> ''maxSupply'' \<longrightarrow> k \<noteq> ''explorer'' \<longrightarrow>
                 column df k = (if k \<in> set rs then map_option round_series (column df1 k)
                                else column df1 k)"
    proof (intro allI impI)
      fix k :: string
      assume "k \<noteq> ''maxSupply''" "k \<noteq> ''explorer''"
      then have "column c2 k = column df1 k"
        using c1 c2 by (simp add: column_set_column_other)
      with coldf [of k] show "column df k = (if k \<in> set rs then map_option round_series (column df1 k)
                                else column df1 k)" by simp
    qed
    note a0 = casts_done [OF c]
    show "\<exists>df0 df1 m1 e1.
             json_normalize raw ''data'' ''.'' = Inr df0
           \<and> convert_cols_cat_to_num L df0 ts = Inr df1
           \<and> (distinct (map fst ts) \<longrightarrow>
                (\<forall>ct \<in> set ts. \<forall>zs. column df0 (fst ct) = Some zs \<longrightarrow>
                   (\<exists>zs'. astype L zs (snd ct) = Inr zs' \<and> column df1 (fst ct) = Some zs')))
           \<and> column df1 ''maxSupply'' = Some m1 \<and> column df1 ''explorer'' = Some e1
           \<and> distinct rs
           \<and> set rs \<subseteq> set (columns df)
           \<and> column df ''maxSupply''
               = Some (if ''maxSupply'' \<in> set rs then round_series (fillna m1 (Num 0))
                       else fillna m1 (Num 0))
           \<and> column df ''explorer''
               = Some (if ''explorer'' \<in> set rs
                       then round_series (fillna e1 (Str ''not available''))
                       else fillna e1 (Str ''not available''))
           \<and> (\<forall>c. c \<noteq> ''maxSupply'' \<longrightarrow> c \<noteq> ''explorer'' \<longrightarrow>
                 column df c = (if c \<in> set rs then map_option round_series (column df1 c)
                                else column df1 c))"
      apply (rule exI [of _ df0])
      apply (rule exI [of _ df1])
      apply (rule exI [of _ m1])
      apply (rule exI [of _ e1])
      apply (intro conjI)
              apply (rule n)
             apply (rule c)
            apply (rule a0)
           apply (rule m1)
          apply (rule e1)
          apply (rule once)
         apply (rule a3)
        apply (rule a4)
       apply (rule a5)
      apply (rule a6)
      done
  qed
  have assets_failure: ?assets_failure
  proof -
    have norm: "transform_assets L raw ts rs = Inl e"
      if "json_normalize raw ''data'' ''.'' = Inl e" for e
      using that by (simp add: transform_assets_def)
    have coerce: "transform_assets L raw ts rs = Inl e"
      if "json_normalize raw ''data'' ''.'' = Inr df0" "convert_cols_cat_to_num L df0 ts = Inl e"
      for df0 e
      using that by (simp add: transform_assets_def)
    have nomax: "transform_assets L raw ts rs = Inl KeyError"
      if "json_normalize raw ''data'' ''.'' = Inr df0" "convert_cols_cat_to_num L df0 ts = Inr df1"
        "column df1 ''maxSupply'' = None"
      for df0 df1
      using that by (simp add: transform_assets_def fill_column_def)
    have noexp: "transform_assets L raw ts rs = Inl KeyError"
      if "json_normalize raw ''data'' ''.'' = Inr df0" "convert_cols_cat_to_num L df0 ts = Inr df1"
        "column df1 ''explorer'' = None"
      for df0 df1
      using that
      by (cases "column df1 ''maxSupply''")
        (simp_all add: transform_assets_def fill_column_def column_set_column_other)
    have noround: "transform_assets L raw ts rs = Inl KeyError"
      if "json_normalize raw ''data'' ''.'' = Inr df0" "convert_cols_cat_to_num L df0 ts = Inr df1"
        "\<not> set rs \<subseteq> set (columns df1)"
      for df0 df1
    proof (cases "column df1 ''maxSupply''")
      case None
      with that show ?thesis by (simp add: nomax)
    next
      case (Some m1)
      let ?c1 = "set_column df1 ''maxSupply'' (fillna m1 (Num 0))"
      have k1: "columns ?c1 = columns df1"
        using column_Some_in_columns [OF Some] by (rule columns_set_column_present)
      show ?thesis
      proof (cases "column df1 ''explorer''")
        case None
        with that show ?thesis by (simp add: noexp)
      next
        case e: (Some e1)
        let ?c2 = "set_column ?c1 ''explorer'' (fillna e1 (Str ''not available''))"
        have ce: "column ?c1 ''explorer'' = Some e1"
          using e by (simp add: column_set_column_other)
        have "columns ?c2 = columns ?c1"
          using column_Some_in_columns [OF ce] by (rule columns_set_column_present)
        with k1 that(3) have "round_columns ?c2 rs = Inl KeyError"
          by (simp add: round_columns_def)
        with that(1,2) Some ce show ?thesis
          by (simp add: transform_assets_def fill_column_def)
      qed
    qed
    from norm coerce nomax noexp noround show ?thesis by blast
  qed
  have no_sink: ?no_sink
  proof (intro conjI allI impI)
    fix raw tr out e
    assume ex: "extract_json (requests_get w) assets_url = (Inr raw, tr, out)"
      and t: "transform_assets L raw cols_datatypes_assets cols_to_round_assets = Inl e"
    from ex have tr: "tr = [HttpGet assets_url]" by (rule extract_json_trace)
    show "list_all (\<lambda>ev. \<not> sink_activity ev) (fst (snd (run_assets_notebook L w)))"
      using ex t tr by (simp add: run_assets_notebook_def sink_activity_def split: option.splits)
    show "fst (run_assets_notebook L w) \<noteq> None"
      using ex t by (simp add: run_assets_notebook_def split: option.splits)
    assume "explore_cells raw = None"
    with ex t tr show "run_assets_notebook L w
                 = (Some NameError, [HttpGet assets_url], out @ [TransformError])"
      by (simp add: run_assets_notebook_def)
  next
    fix raw tr out r out_t
    assume ex: "extract_json (requests_get w) url = (Inr raw, tr, out)"
      and t: "transform_time_series L raw cols_datatypes_time_series cols_to_round_time_series
            = (r, out_t)"
      and r: "\<forall>df. r \<noteq> Inr (Some df)"
    from ex have tr: "tr = [HttpGet url]" by (rule extract_json_trace)
    have cases: "(\<exists>e. r = Inl e) \<or> r = Inr None"
    proof (cases r)
      case (Inl e)
      then show ?thesis by simp
    next
      case (Inr b)
      with r show ?thesis by (cases b) simp_all
    qed
    show "list_all (\<lambda>ev. \<not> sink_activity ev) (fst (snd (run_time_series_notebook L w url)))"
      using ex t tr cases
      by (auto simp: run_time_series_notebook_def sink_activity_def split: option.splits)
    show "fst (run_time_series_notebook L w url) \<noteq> None"
      using ex t cases by (auto simp: run_time_series_notebook_def split: option.splits)
    assume ok: "explore_cells raw = None"
    show "run_time_series_notebook L w url
                    = (Some NameError, [HttpGet url], out @ out_t @ [TransformError])"
      if "r = Inl e" for e
      using that ex t tr ok by (simp add: run_time_series_notebook_def)
    show "run_time_series_notebook L w url = (Some AttributeError, [HttpGet url], out @ out_t)"
      if "r = Inr None"
      using that ex t tr ok by (simp add: run_time_series_notebook_def)
  qed
  show ?thesis
    apply (rule conjI)
     apply (rule ts_table)
    apply (rule conjI)
     apply (rule ts_failure)
    apply (rule conjI)
     apply (rule assets_table)
    apply (rule conjI)
     apply (rule assets_failure)
    apply (rule no_sink)
    done
qed


theorem clean_failure_no_table_no_sink_witness:
  "transform_time_series py bad_price_response cols_datatypes_time_series cols_to_round_time_series
     = (Inl ValueError, [])
   \<and> fst (transform_time_series py bad_date_response cols_datatypes_time_series
            cols_to_round_time_series) = Inr None
   \<and> take 1 (snd (transform_time_series py bad_date_response cols_datatypes_time_series
                    cols_to_round_time_series)) = [DateError ValueError]
   \<and> transform_assets py null_assets_response cols_datatypes_assets [''supply''] = Inl KeyError
   \<and> list_all (\<lambda>ev. \<not> sink_activity ev)
         (fst (snd (run_time_series_notebook py world_bad_date bitcoin_url)))
   \<and> list_all (\<lambda>ev. \<not> sink_activity ev)
         (fst (snd (run_time_series_notebook py world_bad_price bitcoin_url)))
   \<and> run_assets_notebook py world_bad_price
       = (Some NameError, [HttpGet assets_url], [TransformError])"
proof -
  let ?price0 = "\<lparr>nrows = 1, cols = [(''priceUsd'', [Str ''abc'']), (''time'', [Num 1672617600000]),
                                    (''date'', [Str ''2023-01-02T00:00:00.000Z''])]\<rparr>"
  let ?date1 = "\<lparr>nrows = 1, cols = [(''priceUsd'', [Num (167085235619029337193 / 10000000000000000)]),
                                    (''time'', [Num 1672617600000]),
                                    (''date'', [Str ''yesterday''])]\<rparr>"
  let ?date0 = "\<lparr>nrows = 1, cols = [(''priceUsd'', [Str ''16708.5235619029337193'']),
                                    (''time'', [Num 1672617600000]),
                                    (''date'', [Str ''yesterday''])]\<rparr>"
  let ?null0 = "\<lparr>nrows = 1, cols = [(''maxSupply'', [Null]), (''explorer'', [Null])]\<rparr>"
  have n1: "json_normalize bad_price_response ''data'' ''.'' = Inr ?price0" by code_simp
  have c1: "convert_cols_cat_to_num py ?price0 cols_datatypes_time_series = Inl ValueError"
    by code_simp
  have n2: "json_normalize bad_date_response ''data'' ''.'' = Inr ?date0" by code_simp
  have c2: "convert_cols_cat_to_num py ?date0 cols_datatypes_time_series = Inr ?date1"
    by code_simp
  have x2: "column ?date1 ''date'' = Some [Str ''yesterday'']" by (simp add: column_def)
  have y2: "to_datetime_date py [Str ''yesterday''] = Inl ValueError" by code_simp
  have n3: "json_normalize null_assets_response ''data'' ''.'' = Inr ?null0" by code_simp
  have c3: "convert_cols_cat_to_num py ?null0 cols_datatypes_assets = Inr ?null0" by code_simp
  have r3: "\<not> set [''supply''] \<subseteq> set (columns ?null0)" by (simp add: columns_def)
  have e4: "extract_json (requests_get world_bad_date) bitcoin_url
              = (Inr bad_date_response, [HttpGet bitcoin_url], [])"
    by (simp add: extract_json_def world_bad_date_def)
  have t4: "transform_time_series py bad_date_response cols_datatypes_time_series
              cols_to_round_time_series
            = (Inr None, [DateError ValueError, DropError AttributeError, RoundError TypeError])"
    by code_simp
  have r4: "\<forall>df. (Inr None :: exn + dataframe option) \<noteq> Inr (Some df)" by simp
  have e5: "extract_json (requests_get world_bad_price) bitcoin_url
              = (Inr bad_price_response, [HttpGet bitcoin_url], [])"
    by (simp add: extract_json_def world_bad_price_def)
  have t5: "transform_time_series py bad_price_response cols_datatypes_time_series
              cols_to_round_time_series = (Inl ValueError, [])"
    by code_simp
  have r5: "\<forall>df. (Inl ValueError :: exn + dataframe option) \<noteq> Inr (Some df)" by simp
  have e6: "extract_json (requests_get world_bad_price) assets_url
              = (Inr bad_price_response, [HttpGet assets_url], [])"
    by (simp add: extract_json_def world_bad_price_def)
  have t6: "transform_assets py bad_price_response cols_datatypes_assets cols_to_round_assets
              = Inl ValueError"
    by code_simp
  have x6: "explore_cells bad_price_response = None" by code_simp
  note ts_price = clean_failure_no_table_no_sink
    [of py bad_price_response cols_datatypes_time_series cols_to_round_time_series
        world_bad_price bitcoin_url]
  note ts_date = clean_failure_no_table_no_sink
    [of py bad_date_response cols_datatypes_time_series cols_to_round_time_series
        world_bad_date bitcoin_url]
  note as_null = clean_failure_no_table_no_sink
    [of py null_assets_response cols_datatypes_assets "[''supply'']" world_bad_date bitcoin_url]
  from ts_price [THEN conjunct2, THEN conjunct1, THEN conjunct2] n1 c1
  have w1: "transform_time_series py bad_price_response cols_datatypes_time_series
              cols_to_round_time_series = (Inl ValueError, [])"
    by blast
  from ts_date [THEN conjunct2, THEN conjunct1, THEN conjunct2] n2 c2 x2 y2
  have w2: "fst (transform_time_series py bad_date_response cols_datatypes_time_series
                   cols_to_round_time_series) = Inr None
            \<and> take 1 (snd (transform_time_series py bad_date_response cols_datatypes_time_series
                    cols_to_round_time_series)) = [DateError ValueError]"
    by blast
  from as_null [THEN conjunct2, THEN conjunct2, THEN conjunct2, THEN conjunct1, THEN conjunct2]
    n3 c3 r3
  have w3: "transform_assets py null_assets_response cols_datatypes_assets [''supply'']
              = Inl KeyError"
    by blast
  from ts_date [THEN conjunct2, THEN conjunct2, THEN conjunct2, THEN conjunct2, THEN conjunct2]
    e4 t4 r4
  have w4: "list_all (\<lambda>ev. \<not> sink_activity ev)
         (fst (snd (run_time_series_notebook py world_bad_date bitcoin_url)))"
    by blast
  from ts_price [THEN conjunct2, THEN conjunct2, THEN conjunct2, THEN conjunct2, THEN conjunct2]
    e5 t5 r5
  have w5: "list_all (\<lambda>ev. \<not> sink_activity ev)
         (fst (snd (run_time_series_notebook py world_bad_price bitcoin_url)))"
    by blast
  from ts_price [THEN conjunct2, THEN conjunct2, THEN conjunct2, THEN conjunct2, THEN conjunct1]
    e6 t6 x6
  have w6: "run_assets_notebook py world_bad_price
       = (Some NameError, [HttpGet assets_url], [] @ [TransformError])"
    by blast
  from w1 w2 w3 w4 w5 w6 show ?thesis by simp
qed

end
